theory Spec2Isabelle
  imports Main
begin

section \<open>Errors, spans and the outcome of a Go call\<close>

text \<open>
  A Go \<^verbatim>\<open>error\<close> value that is not nil.  The interceptor looks at an error in three ways
  only: \<^verbatim>\<open>yarpcerrors.IsStatus(err)\<close>, \<^verbatim>\<open>yarpcerrors.FromError(err).Code()\<close> and
  \<^verbatim>\<open>err.Error()\<close>.  An error is therefore either a structured status with its code and
  its text, or a raw error with its text.  A nil error is \<open>None\<close> of \<open>'c error option\<close>.
  The type \<open>'c\<close> of status codes and its \<^verbatim>\<open>String()\<close> method belong to package yarpcerrors;
  the functions below take \<^verbatim>\<open>Code.String\<close> as the parameter \<open>cs\<close>.
\<close>

datatype 'c error = Status 'c string | Raw string

fun IsStatus :: "'c error option \<Rightarrow> bool" where
  "IsStatus None = False"
| "IsStatus (Some (Status c t)) = True"
| "IsStatus (Some (Raw t)) = False"

fun Error :: "'c error \<Rightarrow> string" where
  "Error (Status c t) = t"
| "Error (Raw t) = t"

text \<open>A Go call either returns or panics.\<close>

datatype 'a go = Return 'a | Panic string

definition nil_dereference :: string where
  "nil_dereference = ''invalid memory address or nil pointer dereference''"

text \<open>
  The span of the tracing provider, seen through the calls the interceptor makes on it:
  the tags set (the most recent first, so that a later \<^verbatim>\<open>SetTag\<close> of a key overrides an
  earlier one), the log records, and how often \<^verbatim>\<open>Finish\<close> has been called.
\<close>

datatype tagval = TBool bool | TStr string

type_synonym span_ctx = nat

record span =
  operationName :: string
  spanContext :: span_ctx
  parentContext :: "span_ctx option"
  transportName :: string
  startTime :: nat
  tags :: "(string \<times> tagval) list"
  logs :: "(string \<times> string) list list"
  finishes :: nat

definition SetTag :: "string \<Rightarrow> tagval \<Rightarrow> span \<Rightarrow> span" where
  "SetTag k v s = s\<lparr>tags := (k, v) # tags s\<rparr>"

definition tag :: "span \<Rightarrow> string \<Rightarrow> tagval option" where
  "tag s k = map_of (tags s) k"

text \<open>\<^verbatim>\<open>ext.Error.Set(span, b)\<close> of opentracing-go: the tag \<^verbatim>\<open>error\<close>.\<close>

definition ext_Error_Set :: "bool \<Rightarrow> span \<Rightarrow> span" where
  "ext_Error_Set b s = SetTag ''error'' (TBool b) s"

definition LogFields :: "(string \<times> string) list \<Rightarrow> span \<Rightarrow> span" where
  "LogFields fs s = s\<lparr>logs := logs s @ [fs]\<rparr>"

definition Finish :: "span \<Rightarrow> span" where
  "Finish s = s\<lparr>finishes := Suc (finishes s)\<rparr>"

section \<open>The error classifier\<close>

text \<open>\<^verbatim>\<open>updateSpanWithError(span, err)\<close>: the span after the call, and the error returned.\<close>

definition updateSpanWithError ::
  "('c \<Rightarrow> string) \<Rightarrow> span \<Rightarrow> 'c error option \<Rightarrow> span \<times> 'c error option" where
  "updateSpanWithError cs span err =
    (case err of
       None \<Rightarrow> (span, err)
     | Some e \<Rightarrow>
        (let span1 = ext_Error_Set True span in
         case e of
           Status errCode t \<Rightarrow>
             (SetTag ''error.type'' (TStr (cs errCode))
               (SetTag ''rpc.yarpc.status_code'' (TStr (cs errCode)) span1), err)
         | Raw t \<Rightarrow> (SetTag ''error.type'' (TStr ''unknown_internal_yarpc'') span1, err)))"

record response =
  ApplicationError :: bool
  ResponseHeaders :: "string \<rightharpoonup> string"

text \<open>\<^verbatim>\<open>updateSpanWithOutboundError(span, res, err)\<close>; \<open>res\<close> is a pointer and may be nil.\<close>

definition updateSpanWithOutboundError ::
  "('c \<Rightarrow> string) \<Rightarrow> span \<Rightarrow> response option \<Rightarrow> 'c error option \<Rightarrow> span \<times> 'c error option" where
  "updateSpanWithOutboundError cs span res err =
    (let isApplicationError = (case res of None \<Rightarrow> False | Some r \<Rightarrow> ApplicationError r) in
     if err = None \<and> \<not> isApplicationError then (span, err)
     else
       (let span1 = ext_Error_Set True span in
        if IsStatus err then
          (case err of
             Some (Status errCode t) \<Rightarrow>
               (SetTag ''error.type'' (TStr (cs errCode))
                 (SetTag ''rpc.yarpc.status_code'' (TStr (cs errCode)) span1), err)
           | _ \<Rightarrow> (span1, err))
        else if isApplicationError then
          (SetTag ''error.type'' (TStr ''application_error'') span1, err)
        else
          (SetTag ''error.type'' (TStr ''unknown_internal_yarpc'') span1, err)))"

section \<open>Requests, the tracer and the interceptor\<close>

record request =
  Caller :: string
  Service :: string
  Transport :: string
  Procedure :: string
  Headers :: "string \<rightharpoonup> string"

text \<open>\<^verbatim>\<open>Headers.With(k, v)\<close>, and the loop \<^verbatim>\<open>for k, v := range tracingHeaders\<close> that applies
  it for every entry of a Go map: the keys of a map are distinct, so the loop overrides
  the headers with the map, in whatever order it runs.\<close>

definition With :: "string \<Rightarrow> string \<Rightarrow> (string \<rightharpoonup> string) \<Rightarrow> (string \<rightharpoonup> string)" where
  "With k v hs = hs(k \<mapsto> v)"

definition withAll :: "(string \<rightharpoonup> string) \<Rightarrow> (string \<rightharpoonup> string) \<Rightarrow> (string \<rightharpoonup> string)" where
  "withAll tracingHeaders hs = hs ++ tracingHeaders"

datatype BuiltinFormat = Binary | TextMap | HTTPHeaders

text \<open>
  Modelled from the spec: \<^verbatim>\<open>GetPropagationCarrier\<close> is not among the sources.  It wraps a
  header collection as the carrier of a transport: the carrier here is the transport name
  with the headers.
\<close>

type_synonym carrier = "string \<times> (string \<rightharpoonup> string)"

definition GetPropagationCarrier :: "(string \<rightharpoonup> string) \<Rightarrow> string \<Rightarrow> carrier" where
  "GetPropagationCarrier items t = (t, items)"

text \<open>
  The tracing provider is an external collaborator, an interface value of Go.  A tracer is
  given by what its methods answer: \<open>Extract\<close> the parent context found in a carrier (or
  nil) and an error, which the interceptor drops; \<open>Inject\<close> the headers it leaves in the
  empty carrier and an error or nil; \<open>StartSpanContext\<close> the context of a span it starts
  under a parent.
\<close>

record 'c tracer =
  Extract :: "BuiltinFormat \<Rightarrow> carrier \<Rightarrow> span_ctx option \<times> 'c error option"
  Inject :: "span_ctx \<Rightarrow> BuiltinFormat \<Rightarrow> carrier \<Rightarrow> (string \<rightharpoonup> string) \<times> 'c error option"
  StartSpanContext :: "span_ctx option \<Rightarrow> span_ctx"

text \<open>The struct \<^verbatim>\<open>Params\<close>; its field \<^verbatim>\<open>Transport\<close> is \<open>TransportP\<close> here.\<close>

record 'c Params =
  Tracer :: "'c tracer option"
  TransportP :: string

text \<open>The struct \<^verbatim>\<open>Interceptor\<close>.  The field \<open>tracer\<close> is an interface value: it may be nil.\<close>

record 'c Interceptor =
  tracer :: "'c tracer option"
  transport :: string
  propagationFormat :: BuiltinFormat

text \<open>
  Modelled from the spec: \<^verbatim>\<open>ExtractOpenTracingSpan.Do\<close> and \<^verbatim>\<open>CreateOpenTracingSpan.Do\<close>
  of package transport are not among the sources.  Both start a span of the tracer, named
  after the procedure, with the transport name, the start time and the extra tags stamped
  on it; the first one under the parent context extracted from the carrier (a root span
  when there is none), the second one with no extraction: its parent is the span that
  the context of the caller carries, if there is one.  A started span has no log record
  and has not been finished.

  The \<^verbatim>\<open>context.Context\<close> of the caller is seen through the span it carries: \<open>ctx\<close> is the
  context of that span, or \<open>None\<close> when the context carries no span.
\<close>

definition ExtractOpenTracingSpan_Do ::
  "span_ctx option \<Rightarrow> 'c tracer \<Rightarrow> string \<Rightarrow> nat \<Rightarrow> (string \<times> tagval) list \<Rightarrow> request \<Rightarrow> span" where
  "ExtractOpenTracingSpan_Do parentSpanCtx tr tname start extraTags req =
    \<lparr>operationName = Procedure req,
     spanContext = StartSpanContext tr parentSpanCtx,
     parentContext = parentSpanCtx,
     transportName = tname,
     startTime = start,
     tags = extraTags,
     logs = [],
     finishes = 0\<rparr>"

definition CreateOpenTracingSpan_Do ::
  "'c tracer \<Rightarrow> string \<Rightarrow> nat \<Rightarrow> (string \<times> tagval) list \<Rightarrow> span_ctx option \<Rightarrow> request
    \<Rightarrow> span" where
  "CreateOpenTracingSpan_Do tr tname start extraTags ctx req =
    \<lparr>operationName = Procedure req,
     spanContext = StartSpanContext tr ctx,
     parentContext = ctx,
     transportName = tname,
     startTime = start,
     tags = extraTags,
     logs = [],
     finishes = 0\<rparr>"

section \<open>The interceptor with all six entry points\<close>

text \<open>
  \<^verbatim>\<open>New(p)\<close> of \<^verbatim>\<open>internal/tracinginterceptor/interceptor.go\<close>.  The propagation format of
  a transport (\<^verbatim>\<open>transport.GetPropagationFormat\<close>) and the global tracer of opentracing-go
  at the time of the call (\<^verbatim>\<open>opentracing.GlobalTracer()\<close>, an interface value) are
  not this package's: they are the parameters \<open>formatFor\<close> and \<open>global\<close>.
\<close>

definition New ::
  "(string \<Rightarrow> BuiltinFormat) \<Rightarrow> 'c tracer option \<Rightarrow> 'c Params \<Rightarrow> 'c Interceptor" where
  "New formatFor global p =
    (let m = \<lparr>tracer = Tracer p, transport = TransportP p,
              propagationFormat = formatFor (TransportP p)\<rparr>
     in if tracer m = None then m\<lparr>tracer := global\<rparr> else m)"

text \<open>
  What an entry point leaves behind: what it returns to its caller (or the panic it
  ends with), the span it started, as it is after the deferred \<^verbatim>\<open>Finish\<close> (none when the
  entry point never started one), and the requests it handed to the wrapped handler or
  outbound, one for each invocation.
\<close>

record ('r, 'c) inbound_exit =
  in_returned :: "'c error option go"
  in_span :: "span option"
  in_handled :: "'r list"

record ('a, 'r, 'c) outbound_exit =
  out_returned :: "('a option \<times> 'c error option) go"
  out_span :: "span option"
  out_called :: "'r list"

text \<open>
  A wrapped handler or outbound is given by what it answers to a request: it returns or
  it panics.  It leaves the span of the interceptor alone.  \<open>now\<close> is \<^verbatim>\<open>time.Now()\<close>.
  A method call on the nil tracer panics before any span exists.
\<close>

definition Handle ::
  "('c \<Rightarrow> string) \<Rightarrow> nat \<Rightarrow> 'c Interceptor \<Rightarrow> request \<Rightarrow> (request \<Rightarrow> 'c error option go)
    \<Rightarrow> (request, 'c) inbound_exit" where
  "Handle cs now m req h =
    (case tracer m of
       None \<Rightarrow> \<lparr>in_returned = Panic nil_dereference, in_span = None, in_handled = []\<rparr>
     | Some tr \<Rightarrow>
        (let parentSpanCtx = fst (Extract tr (propagationFormat m)
                                   (GetPropagationCarrier (Headers req) (Transport req)));
             span = ExtractOpenTracingSpan_Do parentSpanCtx tr (Transport req) now [] req
         in case h req of
              Panic msg \<Rightarrow>
                \<lparr>in_returned = Panic msg, in_span = Some (Finish span), in_handled = [req]\<rparr>
            | Return err \<Rightarrow>
                (let (span', r) = updateSpanWithError cs span err
                 in \<lparr>in_returned = Return r, in_span = Some (Finish span'),
                      in_handled = [req]\<rparr>)))"

definition Call ::
  "('c \<Rightarrow> string) \<Rightarrow> nat \<Rightarrow> 'c Interceptor \<Rightarrow> span_ctx option \<Rightarrow> request
    \<Rightarrow> (request \<Rightarrow> (response option \<times> 'c error option) go)
    \<Rightarrow> (response, request, 'c) outbound_exit" where
  "Call cs now m ctx req out =
    (case tracer m of
       None \<Rightarrow> \<lparr>out_returned = Panic nil_dereference, out_span = None, out_called = []\<rparr>
     | Some tr \<Rightarrow>
        (let span = CreateOpenTracingSpan_Do tr (transport m) now [] ctx req
         in case Inject tr (spanContext span) (propagationFormat m)
                   (GetPropagationCarrier Map.empty (transport m)) of
              (tracingHeaders, Some err) \<Rightarrow>
                (let span1 = ext_Error_Set True span;
                     span2 = LogFields [(''event'', ''error''), (''message'', Error err)] span1
                 in \<lparr>out_returned = Return (None, Some err), out_span = Some (Finish span2),
                      out_called = []\<rparr>)
            | (tracingHeaders, None) \<Rightarrow>
                (let req' = req\<lparr>Headers := withAll tracingHeaders (Headers req)\<rparr>
                 in case out req' of
                      Panic msg \<Rightarrow>
                        \<lparr>out_returned = Panic msg, out_span = Some (Finish span),
                         out_called = [req']\<rparr>
                    | Return (res, err) \<Rightarrow>
                        (let (span', r) = updateSpanWithOutboundError cs span res err
                         in \<lparr>out_returned = Return (res, r), out_span = Some (Finish span'),
                              out_called = [req']\<rparr>))))"

definition HandleOneway ::
  "('c \<Rightarrow> string) \<Rightarrow> nat \<Rightarrow> 'c Interceptor \<Rightarrow> request \<Rightarrow> (request \<Rightarrow> 'c error option go)
    \<Rightarrow> (request, 'c) inbound_exit" where
  "HandleOneway cs now m req h =
    (case tracer m of
       None \<Rightarrow> \<lparr>in_returned = Panic nil_dereference, in_span = None, in_handled = []\<rparr>
     | Some tr \<Rightarrow>
        (let parentSpanCtx = fst (Extract tr (propagationFormat m)
                                   (GetPropagationCarrier (Headers req) (Transport req)));
             span = ExtractOpenTracingSpan_Do parentSpanCtx tr (Transport req) now [] req
         in case h req of
              Panic msg \<Rightarrow>
                \<lparr>in_returned = Panic msg, in_span = Some (Finish span), in_handled = [req]\<rparr>
            | Return err \<Rightarrow>
                (let (span', r) = updateSpanWithError cs span err
                 in \<lparr>in_returned = Return r, in_span = Some (Finish span'),
                      in_handled = [req]\<rparr>)))"

definition CallOneway ::
  "('c \<Rightarrow> string) \<Rightarrow> nat \<Rightarrow> 'c Interceptor \<Rightarrow> span_ctx option \<Rightarrow> request
    \<Rightarrow> (request \<Rightarrow> ('ack option \<times> 'c error option) go)
    \<Rightarrow> ('ack, request, 'c) outbound_exit" where
  "CallOneway cs now m ctx req out =
    (case tracer m of
       None \<Rightarrow> \<lparr>out_returned = Panic nil_dereference, out_span = None, out_called = []\<rparr>
     | Some tr \<Rightarrow>
        (let span = CreateOpenTracingSpan_Do tr (transport m) now [] ctx req
         in case Inject tr (spanContext span) (propagationFormat m)
                   (GetPropagationCarrier Map.empty (transport m)) of
              (tracingHeaders, Some err) \<Rightarrow>
                (let span1 = ext_Error_Set True span;
                     span2 = LogFields [(''event'', ''error''), (''message'', Error err)] span1
                 in \<lparr>out_returned = Return (None, Some err), out_span = Some (Finish span2),
                      out_called = []\<rparr>)
            | (tracingHeaders, None) \<Rightarrow>
                (let req' = req\<lparr>Headers := withAll tracingHeaders (Headers req)\<rparr>
                 in case out req' of
                      Panic msg \<Rightarrow>
                        \<lparr>out_returned = Panic msg, out_span = Some (Finish span),
                         out_called = [req']\<rparr>
                    | Return (ack, err) \<Rightarrow>
                        (let (span', r) = updateSpanWithError cs span err
                         in \<lparr>out_returned = Return (ack, r), out_span = Some (Finish span'),
                              out_called = [req']\<rparr>))))"

text \<open>
  A stream request carries the request meta; \<^verbatim>\<open>Meta.ToRequest()\<close> is the request with the
  fields of the meta, so the meta is a \<open>request\<close> here.  A server stream is seen through
  \<^verbatim>\<open>s.Request()\<close>.
\<close>

record StreamRequest =
  Meta :: request

record ServerStream =
  Request :: StreamRequest

definition HandleStream ::
  "('c \<Rightarrow> string) \<Rightarrow> nat \<Rightarrow> 'c Interceptor \<Rightarrow> ServerStream
    \<Rightarrow> (ServerStream \<Rightarrow> 'c error option go) \<Rightarrow> (ServerStream, 'c) inbound_exit" where
  "HandleStream cs now m s h =
    (let meta = Meta (Request s)
     in case tracer m of
       None \<Rightarrow> \<lparr>in_returned = Panic nil_dereference, in_span = None, in_handled = []\<rparr>
     | Some tr \<Rightarrow>
        (let parentSpanCtx = fst (Extract tr (propagationFormat m)
                                   (GetPropagationCarrier (Headers meta) (Transport meta)));
             span = ExtractOpenTracingSpan_Do parentSpanCtx tr (Transport meta) now [] meta
         in case h s of
              Panic msg \<Rightarrow>
                \<lparr>in_returned = Panic msg, in_span = Some (Finish span), in_handled = [s]\<rparr>
            | Return err \<Rightarrow>
                (let (span', r) = updateSpanWithError cs span err
                 in \<lparr>in_returned = Return r, in_span = Some (Finish span'),
                      in_handled = [s]\<rparr>)))"

definition CallStream ::
  "('c \<Rightarrow> string) \<Rightarrow> nat \<Rightarrow> 'c Interceptor \<Rightarrow> span_ctx option \<Rightarrow> StreamRequest
    \<Rightarrow> (StreamRequest \<Rightarrow> ('cs option \<times> 'c error option) go)
    \<Rightarrow> ('cs, StreamRequest, 'c) outbound_exit" where
  "CallStream cs now m ctx req out =
    (case tracer m of
       None \<Rightarrow> \<lparr>out_returned = Panic nil_dereference, out_span = None, out_called = []\<rparr>
     | Some tr \<Rightarrow>
        (let span = CreateOpenTracingSpan_Do tr (transport m) now [] ctx (Meta req)
         in case Inject tr (spanContext span) (propagationFormat m)
                   (GetPropagationCarrier Map.empty (transport m)) of
              (tracingHeaders, Some err) \<Rightarrow>
                (let span1 = ext_Error_Set True span;
                     span2 = LogFields [(''event'', ''error''), (''message'', Error err)] span1
                 in \<lparr>out_returned = Return (None, Some err), out_span = Some (Finish span2),
                      out_called = []\<rparr>)
            | (tracingHeaders, None) \<Rightarrow>
                (let req' = req\<lparr>Meta := (Meta req)\<lparr>Headers :=
                               withAll tracingHeaders (Headers (Meta req))\<rparr>\<rparr>
                 in case out req' of
                      Panic msg \<Rightarrow>
                        \<lparr>out_returned = Panic msg, out_span = Some (Finish span),
                         out_called = [req']\<rparr>
                    | Return (clientStream, err) \<Rightarrow>
                        (let (span', r) = updateSpanWithError cs span err
                         in \<lparr>out_returned = Return (clientStream, r),
                              out_span = Some (Finish span'), out_called = [req']\<rparr>))))"

section \<open>The interceptor with the pooled response observer\<close>

text \<open>
  The second version of the package has the same \<^verbatim>\<open>New\<close>, \<^verbatim>\<open>updateSpanWithError\<close> and
  \<^verbatim>\<open>updateSpanWithOutboundError\<close>, line for line; its entry points carry the suffix
  \<open>_pooled\<close> here.  It wraps the response writer of an inbound unary call.

  The underlying \<^verbatim>\<open>transport.ResponseWriter\<close> belongs to the transport.  It is seen through
  the calls that reach it: how often \<^verbatim>\<open>SetApplicationError\<close> was called, the metas it was
  given, the chunks written, and whether it implements
  \<^verbatim>\<open>transport.ApplicationErrorMetaSetter\<close>.
\<close>

record ApplicationErrorMeta =
  Details :: string
  Name :: string

record ResponseWriter =
  appErrorCalls :: nat
  metasSet :: "ApplicationErrorMeta list"
  written :: "string list"
  isMetaSetter :: bool

text \<open>The struct \<^verbatim>\<open>writer\<close>; the embedded interface value is nil in \<^verbatim>\<open>&writer{}\<close>.\<close>

record writer =
  underlying :: "ResponseWriter option"
  isApplicationError :: bool
  applicationErrorMeta :: "ApplicationErrorMeta option"
  responseSize :: int

definition zero_writer :: writer where
  "zero_writer = \<lparr>underlying = None, isApplicationError = False,
                   applicationErrorMeta = None, responseSize = 0\<rparr>"

text \<open>
  \<^verbatim>\<open>_writerPool\<close>, a \<^verbatim>\<open>sync.Pool\<close>: the instances put back and not yet taken.  \<^verbatim>\<open>Get\<close>
  takes any one of them, or ignores them and calls \<^verbatim>\<open>New\<close>; which one is the choice
  \<open>pick\<close>: the index of the instance taken, or an index out of range for a new instance.
\<close>

definition pool_Get :: "nat \<Rightarrow> writer list \<Rightarrow> writer \<times> writer list" where
  "pool_Get pick pool =
    (if pick < length pool then (pool ! pick, take pick pool @ drop (Suc pick) pool)
     else (zero_writer, pool))"

definition pool_Put :: "writer \<Rightarrow> writer list \<Rightarrow> writer list" where
  "pool_Put w pool = w # pool"

definition newWriter :: "nat \<Rightarrow> writer list \<Rightarrow> ResponseWriter \<Rightarrow> writer \<times> writer list" where
  "newWriter pick pool rw =
    (let (w, pool') = pool_Get pick pool;
         w = \<lparr>underlying = Some rw, isApplicationError = False,
              applicationErrorMeta = None, responseSize = 0\<rparr>
     in (w, pool'))"

definition free :: "writer \<Rightarrow> writer list \<Rightarrow> writer list" where
  "free w pool = pool_Put w pool"

text \<open>The methods of \<^verbatim>\<open>writer\<close>.  A call through the nil embedded writer panics.\<close>

definition SetApplicationError :: "writer \<Rightarrow> writer go" where
  "SetApplicationError w =
    (let w1 = w\<lparr>isApplicationError := True\<rparr>
     in case underlying w1 of
          None \<Rightarrow> Panic nil_dereference
        | Some rw \<Rightarrow> Return (w1\<lparr>underlying := Some (rw\<lparr>appErrorCalls := Suc (appErrorCalls rw)\<rparr>)\<rparr>))"

definition SetApplicationErrorMeta :: "ApplicationErrorMeta option \<Rightarrow> writer \<Rightarrow> writer go" where
  "SetApplicationErrorMeta applicationErrorMeta' w =
    (case applicationErrorMeta' of
       None \<Rightarrow> Return w
     | Some meta \<Rightarrow>
        (let w1 = w\<lparr>applicationErrorMeta := applicationErrorMeta'\<rparr>
         in case underlying w1 of
              None \<Rightarrow> Return w1
            | Some rw \<Rightarrow>
                if isMetaSetter rw
                then Return (w1\<lparr>underlying := Some (rw\<lparr>metasSet := metasSet rw @ [meta]\<rparr>)\<rparr>)
                else Return w1))"

definition Write :: "string \<Rightarrow> writer \<Rightarrow> writer go" where
  "Write p w =
    (let w1 = w\<lparr>responseSize := responseSize w + int (length p)\<rparr>
     in case underlying w1 of
          None \<Rightarrow> Panic nil_dereference
        | Some rw \<Rightarrow> Return (w1\<lparr>underlying := Some (rw\<lparr>written := written rw @ [p]\<rparr>)\<rparr>))"

text \<open>
  A unary handler is given by the calls it makes on the response writer it receives, in
  order, and by what it returns or the panic it ends with.
\<close>

datatype writer_call =
  CallSetApplicationError
| CallSetApplicationErrorMeta "ApplicationErrorMeta option"
| CallWrite string

fun writer_do :: "writer_call \<Rightarrow> writer \<Rightarrow> writer go" where
  "writer_do CallSetApplicationError w = SetApplicationError w"
| "writer_do (CallSetApplicationErrorMeta meta) w = SetApplicationErrorMeta meta w"
| "writer_do (CallWrite p) w = Write p w"

fun writer_run :: "writer_call list \<Rightarrow> writer \<Rightarrow> writer go" where
  "writer_run [] w = Return w"
| "writer_run (c # cs) w =
    (case writer_do c w of Panic msg \<Rightarrow> Panic msg | Return w' \<Rightarrow> writer_run cs w')"

record 'c handled_pooled =
  hp_returned :: "'c error option go"
  hp_span :: "span option"
  hp_handled :: "request list"
  hp_writer :: "writer option"
  hp_pool :: "writer list"

text \<open>
  \<^verbatim>\<open>Handle\<close> of the pooled version.  \<open>commonTags\<close> is the package variable
  \<^verbatim>\<open>CommonTracingTags\<close>, which is not among the sources.  \<open>hp_writer\<close> is the wrapper as the
  handler left it, when the handler returned.  A handler that panics leaves the wrapper
  out of the pool: \<^verbatim>\<open>free\<close> is not deferred.
\<close>

definition Handle_pooled ::
  "('c \<Rightarrow> string) \<Rightarrow> (string \<times> tagval) list \<Rightarrow> nat \<Rightarrow> nat \<Rightarrow> writer list \<Rightarrow> 'c Interceptor
    \<Rightarrow> request \<Rightarrow> ResponseWriter \<Rightarrow> (request \<Rightarrow> writer_call list \<times> 'c error option go)
    \<Rightarrow> 'c handled_pooled" where
  "Handle_pooled cs commonTags now pick pool m req resw h =
    (case tracer m of
       None \<Rightarrow> \<lparr>hp_returned = Panic nil_dereference, hp_span = None, hp_handled = [],
                hp_writer = None, hp_pool = pool\<rparr>
     | Some tr \<Rightarrow>
        (let parentSpanCtx = fst (Extract tr (propagationFormat m)
                                   (GetPropagationCarrier (Headers req) (Transport req)));
             span = ExtractOpenTracingSpan_Do parentSpanCtx tr (Transport req) now commonTags req;
             (wrappedWriter, pool1) = newWriter pick pool resw;
             (calls, ending) = h req
         in case writer_run calls wrappedWriter of
              Panic msg \<Rightarrow>
                \<lparr>hp_returned = Panic msg, hp_span = Some (Finish span), hp_handled = [req],
                 hp_writer = None, hp_pool = pool1\<rparr>
            | Return wrappedWriter' \<Rightarrow>
               (case ending of
                  Panic msg \<Rightarrow>
                    \<lparr>hp_returned = Panic msg, hp_span = Some (Finish span), hp_handled = [req],
                     hp_writer = None, hp_pool = pool1\<rparr>
                | Return err \<Rightarrow>
                    (let span1 = (if isApplicationError wrappedWriter'
                                  then SetTag ''error.type'' (TStr ''application_error'') span
                                  else span);
                         pool2 = free wrappedWriter' pool1;
                         (span', r) = updateSpanWithError cs span1 err
                     in \<lparr>hp_returned = Return r, hp_span = Some (Finish span'),
                          hp_handled = [req], hp_writer = Some wrappedWriter',
                          hp_pool = pool2\<rparr>))))"

definition Call_pooled ::
  "('c \<Rightarrow> string) \<Rightarrow> (string \<times> tagval) list \<Rightarrow> nat \<Rightarrow> 'c Interceptor \<Rightarrow> span_ctx option
    \<Rightarrow> request
    \<Rightarrow> (request \<Rightarrow> (response option \<times> 'c error option) go)
    \<Rightarrow> (response, request, 'c) outbound_exit" where
  "Call_pooled cs commonTags now m ctx req out =
    (case tracer m of
       None \<Rightarrow> \<lparr>out_returned = Panic nil_dereference, out_span = None, out_called = []\<rparr>
     | Some tr \<Rightarrow>
        (let span = CreateOpenTracingSpan_Do tr (transport m) now commonTags ctx req
         in case Inject tr (spanContext span) (propagationFormat m)
                   (GetPropagationCarrier Map.empty (transport m)) of
              (tracingHeaders, Some err) \<Rightarrow>
                (let span1 = ext_Error_Set True span;
                     span2 = LogFields [(''event'', ''error''), (''message'', Error err)] span1
                 in \<lparr>out_returned = Return (None, Some err), out_span = Some (Finish span2),
                      out_called = []\<rparr>)
            | (tracingHeaders, None) \<Rightarrow>
                (let req' = req\<lparr>Headers := withAll tracingHeaders (Headers req)\<rparr>
                 in case out req' of
                      Panic msg \<Rightarrow>
                        \<lparr>out_returned = Panic msg, out_span = Some (Finish span),
                         out_called = [req']\<rparr>
                    | Return (res, err) \<Rightarrow>
                        (let (span', r) = updateSpanWithOutboundError cs span res err
                         in \<lparr>out_returned = Return (res, r), out_span = Some (Finish span'),
                              out_called = [req']\<rparr>))))"

text \<open>The other four entry points of the pooled version are \<^verbatim>\<open>panic("implement me")\<close>.\<close>

definition HandleOneway_pooled :: "'c Interceptor \<Rightarrow> request \<Rightarrow> (request, 'c) inbound_exit" where
  "HandleOneway_pooled m req =
    \<lparr>in_returned = Panic ''implement me'', in_span = None, in_handled = []\<rparr>"

definition CallOneway_pooled :: "'c Interceptor \<Rightarrow> request \<Rightarrow> ('ack, request, 'c) outbound_exit" where
  "CallOneway_pooled m req =
    \<lparr>out_returned = Panic ''implement me'', out_span = None, out_called = []\<rparr>"

definition HandleStream_pooled ::
  "'c Interceptor \<Rightarrow> ServerStream \<Rightarrow> (ServerStream, 'c) inbound_exit" where
  "HandleStream_pooled m s =
    \<lparr>in_returned = Panic ''implement me'', in_span = None, in_handled = []\<rparr>"

definition CallStream_pooled ::
  "'c Interceptor \<Rightarrow> StreamRequest \<Rightarrow> ('cs, StreamRequest, 'c) outbound_exit" where
  "CallStream_pooled m req =
    \<lparr>out_returned = Panic ''implement me'', out_span = None, out_called = []\<rparr>"

section \<open>Notions used to state the properties\<close>

text \<open>What \<^verbatim>\<open>Inject\<close> answers in an outbound call of the interceptor \<open>m\<close> with the tracer
  \<open>tr\<close> under the context \<open>ctx\<close>: the span context is the one of the client span just
  started.\<close>

definition injected ::
  "'c tracer \<Rightarrow> 'c Interceptor \<Rightarrow> span_ctx option \<Rightarrow> (string \<rightharpoonup> string) \<times> 'c error option" where
  "injected tr m ctx =
    Inject tr (StartSpanContext tr ctx) (propagationFormat m)
      (GetPropagationCarrier Map.empty (transport m))"

text \<open>The tag \<open>k\<close> of the span an entry point leaves, and the application-error flag of a
  response pointer, as \<^verbatim>\<open>updateSpanWithOutboundError\<close> reads it.\<close>

definition span_tag :: "span option \<Rightarrow> string \<Rightarrow> tagval option" where
  "span_tag so k = (case so of None \<Rightarrow> None | Some s \<Rightarrow> tag s k)"

definition flagged :: "response option \<Rightarrow> bool" where
  "flagged res = (case res of None \<Rightarrow> False | Some r \<Rightarrow> ApplicationError r)"

text \<open>The tags of a span classified with the status code \<open>c\<close>.\<close>

definition status_tagged :: "('c \<Rightarrow> string) \<Rightarrow> 'c \<Rightarrow> span \<Rightarrow> bool" where
  "status_tagged cs c s \<longleftrightarrow>
    tag s ''error'' = Some (TBool True) \<and>
    tag s ''rpc.yarpc.status_code'' = Some (TStr (cs c)) \<and>
    tag s ''error.type'' = Some (TStr (cs c))"

text \<open>
  A sequence of operations of the callers of the pool: acquire a wrapper for a response
  writer (with the choice of \<^verbatim>\<open>Get\<close>), call a method of the \<open>i\<close>-th wrapper held, release
  the \<open>i\<close>-th wrapper held.  \<open>pool_run\<close> gives the wrappers as they were acquired, in order.
  A released wrapper is no longer held.
\<close>

datatype pool_op = Acquire nat ResponseWriter | Use nat writer_call | Release nat

fun pool_run :: "pool_op list \<Rightarrow> writer list \<Rightarrow> writer list \<Rightarrow> writer list" where
  "pool_run [] held pool = []"
| "pool_run (Acquire pick rw # ops) held pool =
    (let (w, pool') = newWriter pick pool rw in w # pool_run ops (held @ [w]) pool')"
| "pool_run (Use i c # ops) held pool =
    (if i < length held
     then (case writer_do c (held ! i) of
             Return w' \<Rightarrow> pool_run ops (held[i := w']) pool
           | Panic msg \<Rightarrow> pool_run ops held pool)
     else pool_run ops held pool)"
| "pool_run (Release i # ops) held pool =
    (if i < length held
     then pool_run ops (take i held @ drop (Suc i) held) (free (held ! i) pool)
     else pool_run ops held pool)"

fun acquired_for :: "pool_op list \<Rightarrow> ResponseWriter list" where
  "acquired_for [] = []"
| "acquired_for (Acquire pick rw # ops) = rw # acquired_for ops"
| "acquired_for (Use i c # ops) = acquired_for ops"
| "acquired_for (Release i # ops) = acquired_for ops"

definition fresh_writer :: "ResponseWriter \<Rightarrow> writer" where
  "fresh_writer rw = \<lparr>underlying = Some rw, isApplicationError = False,
                       applicationErrorMeta = None, responseSize = 0\<rparr>"

subsection \<open>Concrete inputs\<close>

text \<open>A handler or an outbound that answers \<open>x\<close> to every request.\<close>

definition answering :: "'b \<Rightarrow> 'a \<Rightarrow> 'b" where
  "answering x r = x"

definition code_name :: "nat \<Rightarrow> string" where
  "code_name c = (if c = 13 then ''internal'' else if c = 2 then ''unknown'' else ''other'')"

definition plain_tracer :: "nat tracer" where
  "plain_tracer =
    \<lparr>Extract = (\<lambda>f c. (case snd c ''trace-id'' of None \<Rightarrow> None | Some v \<Rightarrow> Some (length v), None)),
     Inject = (\<lambda>sc f c. ([''trace-id'' \<mapsto> ''1''], None)),
     StartSpanContext = (\<lambda>parent. case parent of None \<Rightarrow> 1 | Some p \<Rightarrow> Suc p)\<rparr>"

definition failing_tracer :: "nat tracer" where
  "failing_tracer =
    plain_tracer\<lparr>Inject := (\<lambda>sc f c. (Map.empty, Some (Raw ''unsupported format'')))\<rparr>"

definition a_request :: request where
  "a_request = \<lparr>Caller = ''caller'', Service = ''service'', Transport = ''http'',
                 Procedure = ''get'', Headers = Map.empty\<rparr>"

text \<open>A context of a caller that carries a span.\<close>

definition a_context :: "span_ctx option" where
  "a_context = Some 7"

definition a_sent_request :: request where
  "a_sent_request = a_request\<lparr>Headers := withAll [''trace-id'' \<mapsto> ''1''] (Headers a_request)\<rparr>"

definition a_stream_request :: StreamRequest where
  "a_stream_request = \<lparr>Meta = a_request\<rparr>"

definition a_sent_stream_request :: StreamRequest where
  "a_sent_stream_request = \<lparr>Meta = a_sent_request\<rparr>"

definition a_stream :: ServerStream where
  "a_stream = \<lparr>Request = a_stream_request\<rparr>"

definition an_interceptor :: "nat tracer \<Rightarrow> nat Interceptor" where
  "an_interceptor tr = \<lparr>tracer = Some tr, transport = ''http'', propagationFormat = HTTPHeaders\<rparr>"

definition a_writer :: ResponseWriter where
  "a_writer = \<lparr>appErrorCalls = 0, metasSet = [], written = [], isMetaSetter = False\<rparr>"

definition a_response :: "bool \<Rightarrow> response" where
  "a_response flag = \<lparr>ApplicationError = flag, ResponseHeaders = Map.empty\<rparr>"

definition common_tags :: "(string \<times> tagval) list" where
  "common_tags = [(''component'', TStr ''yarpc'')]"

text \<open>Handlers and outbounds: they fail with a status error, or signal an application
  error; an interceptor with a tracer; parameters without one.\<close>

definition a_status :: "nat error" where
  "a_status = Status 13 ''down''"

definition failing_handler :: "request \<Rightarrow> nat error option go" where
  "failing_handler = answering (Return (Some a_status))"

definition failing_stream_handler :: "ServerStream \<Rightarrow> nat error option go" where
  "failing_stream_handler = answering (Return (Some a_status))"

definition failing_pooled_handler :: "request \<Rightarrow> writer_call list \<times> nat error option go" where
  "failing_pooled_handler = answering ([CallSetApplicationError], Return (Some a_status))"

definition flagging_handler :: "request \<Rightarrow> writer_call list \<times> nat error option go" where
  "flagging_handler = answering ([CallWrite ''body'', CallSetApplicationError], Return None)"

definition failing_outbound :: "request \<Rightarrow> (response option \<times> nat error option) go" where
  "failing_outbound = answering (Return (None, Some a_status))"

definition failing_oneway_outbound :: "request \<Rightarrow> (unit option \<times> nat error option) go" where
  "failing_oneway_outbound = answering (Return (None, Some a_status))"

definition failing_stream_outbound ::
  "StreamRequest \<Rightarrow> (unit option \<times> nat error option) go" where
  "failing_stream_outbound = answering (Return (None, Some a_status))"

definition raw_flagged_outbound :: "request \<Rightarrow> (response option \<times> nat error option) go" where
  "raw_flagged_outbound =
    answering (Return (Some (a_response True), Some (Raw ''connection reset'')))"

definition flagged_outbound :: "request \<Rightarrow> (response option \<times> nat error option) go" where
  "flagged_outbound = answering (Return (Some (a_response True), None))"

definition plain_interceptor :: "nat Interceptor" where
  "plain_interceptor = an_interceptor plain_tracer"

definition failing_interceptor :: "nat Interceptor" where
  "failing_interceptor = an_interceptor failing_tracer"

definition a_format_for :: "string \<Rightarrow> BuiltinFormat" where
  "a_format_for t = (if t = ''tchannel'' then TextMap else HTTPHeaders)"

definition params_without_tracer :: "nat Params" where
  "params_without_tracer = \<lparr>Tracer = None, TransportP = ''http''\<rparr>"

section \<open>The span operations and the classifier\<close>


lemma tag_SetTag: "tag (SetTag k v s) k' = (if k' = k then Some v else tag s k')"
  by (simp add: tag_def SetTag_def)

lemma tag_Finish: "tag (Finish s) k = tag s k"
  by (simp add: tag_def Finish_def)

lemma tag_LogFields: "tag (LogFields fs s) k = tag s k"
  by (simp add: tag_def LogFields_def)

lemma finishes_SetTag: "finishes (SetTag k v s) = finishes s"
  by (simp add: SetTag_def)

lemma finishes_LogFields: "finishes (LogFields fs s) = finishes s"
  by (simp add: LogFields_def)

lemma finishes_Finish: "finishes (Finish s) = Suc (finishes s)"
  by (simp add: Finish_def)

lemma finishes_Extract_Do: "finishes (ExtractOpenTracingSpan_Do p tr tn st ex req) = 0"
  by (simp add: ExtractOpenTracingSpan_Do_def)

lemma finishes_Create_Do: "finishes (CreateOpenTracingSpan_Do tr tn st ex ctx req) = 0"
  by (simp add: CreateOpenTracingSpan_Do_def)

lemma spanContext_Create_Do:
  "spanContext (CreateOpenTracingSpan_Do tr tn st ex ctx req) = StartSpanContext tr ctx"
  by (simp add: CreateOpenTracingSpan_Do_def)

lemma Inject_Create_Do:
  "Inject tr (spanContext (CreateOpenTracingSpan_Do tr (transport m) st ex ctx req))
     (propagationFormat m) (GetPropagationCarrier Map.empty (transport m)) = injected tr m ctx"
  by (simp add: injected_def spanContext_Create_Do)

lemma updateSpanWithError_returns: "snd (updateSpanWithError cs s err) = err"
  by (simp add: updateSpanWithError_def Let_def split: option.split error.split)

lemma updateSpanWithOutboundError_returns: "snd (updateSpanWithOutboundError cs s res err) = err"
  by (simp add: updateSpanWithOutboundError_def Let_def split: option.split error.split)

lemma updateSpanWithError_finishes: "finishes (fst (updateSpanWithError cs s err)) = finishes s"
  by (simp add: updateSpanWithError_def Let_def ext_Error_Set_def finishes_SetTag
      split: option.split error.split)

lemma updateSpanWithOutboundError_finishes:
  "finishes (fst (updateSpanWithOutboundError cs s res err)) = finishes s"
  by (simp add: updateSpanWithOutboundError_def Let_def ext_Error_Set_def finishes_SetTag
      split: option.split error.split)

lemma updateSpanWithError_status:
  "status_tagged cs c (fst (updateSpanWithError cs s (Some (Status c t))))"
  by (simp add: updateSpanWithError_def status_tagged_def Let_def ext_Error_Set_def tag_SetTag)

lemma updateSpanWithOutboundError_status:
  "status_tagged cs c (fst (updateSpanWithOutboundError cs s res (Some (Status c t))))"
  by (simp add: updateSpanWithOutboundError_def status_tagged_def Let_def ext_Error_Set_def
      tag_SetTag)

lemma status_tagged_Finish: "status_tagged cs c (Finish s) = status_tagged cs c s"
  by (simp add: status_tagged_def tag_Finish)

subsection \<open>The response observer\<close>

lemma writer_do_underlying:
  "underlying w \<noteq> None \<Longrightarrow> \<exists>w'. writer_do c w = Return w' \<and> underlying w' \<noteq> None
     \<and> (isApplicationError w \<longrightarrow> isApplicationError w')
     \<and> (c = CallSetApplicationError \<longrightarrow> isApplicationError w')"
  by (cases c)
     (auto simp add: SetApplicationError_def SetApplicationErrorMeta_def Write_def Let_def
       split: option.splits)

lemma writer_run_underlying:
  "underlying w \<noteq> None \<Longrightarrow> \<exists>w'. writer_run calls w = Return w' \<and> underlying w' \<noteq> None
     \<and> (isApplicationError w \<or> CallSetApplicationError \<in> set calls \<longrightarrow> isApplicationError w')"
proof (induction calls arbitrary: w)
  case Nil
  then show ?case by simp
next
  case (Cons c calls)
  from writer_do_underlying [OF Cons.prems, of c] obtain w1 where
    w1: "writer_do c w = Return w1" "underlying w1 \<noteq> None"
    "isApplicationError w \<longrightarrow> isApplicationError w1"
    "c = CallSetApplicationError \<longrightarrow> isApplicationError w1"
    by blast
  from Cons.IH [OF w1(2)] obtain w' where
    w': "writer_run calls w1 = Return w'" "underlying w' \<noteq> None"
    "isApplicationError w1 \<or> CallSetApplicationError \<in> set calls \<longrightarrow> isApplicationError w'"
    by blast
  show ?case using w1 w' by auto
qed

lemma newWriter_fresh: "fst (newWriter pick pool rw) = fresh_writer rw"
  by (simp add: newWriter_def fresh_writer_def Let_def case_prod_beta)

lemma writer_run_newWriter:
  "\<exists>w'. writer_run calls (fst (newWriter pick pool rw)) = Return w'
     \<and> (CallSetApplicationError \<in> set calls \<longrightarrow> isApplicationError w')"
  using writer_run_underlying [of "fst (newWriter pick pool rw)" calls]
  by (auto simp add: newWriter_fresh fresh_writer_def)

lemma updateSpanWithOutboundError_raw:
  "fst (updateSpanWithOutboundError cs s res (Some (Raw t))) =
     SetTag ''error.type''
       (TStr (if flagged res then ''application_error'' else ''unknown_internal_yarpc''))
       (ext_Error_Set True s)"
  by (simp add: updateSpanWithOutboundError_def flagged_def Let_def split: option.split)

lemma updateSpanWithOutboundError_application:
  "ApplicationError r \<Longrightarrow> fst (updateSpanWithOutboundError cs s (Some r) None) =
     SetTag ''error.type'' (TStr ''application_error'') (ext_Error_Set True s)"
  by (simp add: updateSpanWithOutboundError_def Let_def)

lemma tag_ext_Error_Set:
  "tag (ext_Error_Set b s) k = (if k = ''error'' then Some (TBool b) else tag s k)"
  by (simp add: ext_Error_Set_def tag_SetTag)

lemma tags_Finish: "tags (Finish s) = tags s"
  by (simp add: Finish_def)

lemma logs_Finish: "logs (Finish s) = logs s"
  by (simp add: Finish_def)

lemma span_origin_kept:
  "spanContext (Finish s) = spanContext s \<and> parentContext (Finish s) = parentContext s"
  "spanContext (SetTag k v s) = spanContext s \<and> parentContext (SetTag k v s) = parentContext s"
  "spanContext (LogFields fs s) = spanContext s \<and> parentContext (LogFields fs s) = parentContext s"
  "spanContext (ext_Error_Set b s) = spanContext s
     \<and> parentContext (ext_Error_Set b s) = parentContext s"
  "spanContext (fst (updateSpanWithError cs s err)) = spanContext s
     \<and> parentContext (fst (updateSpanWithError cs s err)) = parentContext s"
  "spanContext (fst (updateSpanWithOutboundError cs s res err)) = spanContext s
     \<and> parentContext (fst (updateSpanWithOutboundError cs s res err)) = parentContext s"
  by (simp_all add: Finish_def SetTag_def LogFields_def updateSpanWithError_def
      updateSpanWithOutboundError_def ext_Error_Set_def Let_def split: option.split error.split)

lemma span_origin_started:
  "spanContext (ExtractOpenTracingSpan_Do p tr tn st ex req) = StartSpanContext tr p"
  "parentContext (ExtractOpenTracingSpan_Do p tr tn st ex req) = p"
  "spanContext (CreateOpenTracingSpan_Do tr tn st ex ctx req) = StartSpanContext tr ctx"
  "parentContext (CreateOpenTracingSpan_Do tr tn st ex ctx req) = ctx"
  by (simp_all add: ExtractOpenTracingSpan_Do_def CreateOpenTracingSpan_Do_def)

lemma New_tracer:
  "tracer (New formatFor global p) = (case Tracer p of None \<Rightarrow> global | Some t \<Rightarrow> Some t)"
  by (simp add: New_def Let_def split: option.split)

section \<open>The entry points\<close>

lemmas entry_simps = Let_def case_prod_beta Inject_Create_Do

text \<open>The definitions to unfold to evaluate an entry point on the concrete inputs.\<close>

lemmas concrete_defs =
  Handle_def HandleOneway_def HandleStream_def Call_def CallOneway_def CallStream_def
  Handle_pooled_def Call_pooled_def New_def injected_def
  ExtractOpenTracingSpan_Do_def CreateOpenTracingSpan_Do_def GetPropagationCarrier_def
  updateSpanWithError_def updateSpanWithOutboundError_def ext_Error_Set_def SetTag_def
  LogFields_def Finish_def tag_def span_tag_def status_tagged_def flagged_def withAll_def
  newWriter_def pool_Get_def pool_Put_def free_def zero_writer_def
  SetApplicationError_def SetApplicationErrorMeta_def Write_def
  answering_def code_name_def plain_tracer_def failing_tracer_def a_request_def
  a_sent_request_def a_stream_request_def a_sent_stream_request_def a_stream_def
  an_interceptor_def a_writer_def a_response_def common_tags_def a_status_def
  failing_handler_def failing_stream_handler_def failing_pooled_handler_def
  flagging_handler_def failing_outbound_def failing_oneway_outbound_def
  failing_stream_outbound_def raw_flagged_outbound_def flagged_outbound_def
  plain_interceptor_def failing_interceptor_def a_format_for_def params_without_tracer_def
  a_context_def
  Let_def

text \<open>
  Claim C1.  In every call shape and direction, when the wrapped handler or outbound was
  invoked and returned an error that is a structured status with the code \<open>c\<close>, the span
  has the tag \<^verbatim>\<open>error\<close> set to true and the tags \<^verbatim>\<open>rpc.yarpc.status_code\<close> and \<^verbatim>\<open>error.type\<close>
  both set to the string form of \<open>c\<close>.  This holds for the six entry points of the
  interceptor and for the two entry points of the pooled version.
\<close>

theorem status_error_tagged_with_code:
  "(in_handled (Handle cs now m req h) = [r] \<and> h r = Return (Some (Status c t))
      \<longrightarrow> (\<exists>s. in_span (Handle cs now m req h) = Some s \<and> status_tagged cs c s))
 \<and> (in_handled (HandleOneway cs now m req h) = [r] \<and> h r = Return (Some (Status c t))
      \<longrightarrow> (\<exists>s. in_span (HandleOneway cs now m req h) = Some s \<and> status_tagged cs c s))
 \<and> (in_handled (HandleStream cs now m sv hs) = [rs] \<and> hs rs = Return (Some (Status c t))
      \<longrightarrow> (\<exists>s. in_span (HandleStream cs now m sv hs) = Some s \<and> status_tagged cs c s))
 \<and> (out_called (Call cs now m ctx req out) = [ro] \<and> out ro = Return (res, Some (Status c t))
      \<longrightarrow> (\<exists>s. out_span (Call cs now m ctx req out) = Some s \<and> status_tagged cs c s))
 \<and> (out_called (CallOneway cs now m ctx req outo) = [ro] \<and> outo ro = Return (ack, Some (Status c t))
      \<longrightarrow> (\<exists>s. out_span (CallOneway cs now m ctx req outo) = Some s \<and> status_tagged cs c s))
 \<and> (out_called (CallStream cs now m ctx sreq outs) = [sr] \<and> outs sr = Return (cst, Some (Status c t))
      \<longrightarrow> (\<exists>s. out_span (CallStream cs now m ctx sreq outs) = Some s \<and> status_tagged cs c s))
 \<and> (hp_handled (Handle_pooled cs commonTags now pick pool m req resw hw) = [r]
        \<and> hw r = (calls, Return (Some (Status c t)))
      \<longrightarrow> (\<exists>s. hp_span (Handle_pooled cs commonTags now pick pool m req resw hw) = Some s
            \<and> status_tagged cs c s))
 \<and> (out_called (Call_pooled cs commonTags now m ctx req out) = [ro]
        \<and> out ro = Return (res, Some (Status c t))
      \<longrightarrow> (\<exists>s. out_span (Call_pooled cs commonTags now m ctx req out) = Some s
            \<and> status_tagged cs c s))"
proof (intro conjI impI; (elim conjE)?)
  show "\<exists>s. in_span (Handle cs now m req h) = Some s \<and> status_tagged cs c s"
    if "in_handled (Handle cs now m req h) = [r]" "h r = Return (Some (Status c t))"
    using that
    by (auto simp add: Handle_def entry_simps status_tagged_Finish updateSpanWithError_status
        split: option.splits go.splits)
  show "\<exists>s. in_span (HandleOneway cs now m req h) = Some s \<and> status_tagged cs c s"
    if "in_handled (HandleOneway cs now m req h) = [r]" "h r = Return (Some (Status c t))"
    using that
    by (auto simp add: HandleOneway_def entry_simps status_tagged_Finish updateSpanWithError_status
        split: option.splits go.splits)
  show "\<exists>s. in_span (HandleStream cs now m sv hs) = Some s \<and> status_tagged cs c s"
    if "in_handled (HandleStream cs now m sv hs) = [rs]" "hs rs = Return (Some (Status c t))"
    using that
    by (auto simp add: HandleStream_def entry_simps status_tagged_Finish updateSpanWithError_status
        split: option.splits go.splits)
  show "\<exists>s. out_span (Call cs now m ctx req out) = Some s \<and> status_tagged cs c s"
    if "out_called (Call cs now m ctx req out) = [ro]" "out ro = Return (res, Some (Status c t))"
    using that
    by (auto simp add: Call_def entry_simps status_tagged_Finish
        updateSpanWithOutboundError_status split: option.splits go.splits)
  show "\<exists>s. out_span (CallOneway cs now m ctx req outo) = Some s \<and> status_tagged cs c s"
    if "out_called (CallOneway cs now m ctx req outo) = [ro]" "outo ro = Return (ack, Some (Status c t))"
    using that
    by (auto simp add: CallOneway_def entry_simps status_tagged_Finish
        updateSpanWithError_status split: option.splits go.splits)
  show "\<exists>s. out_span (CallStream cs now m ctx sreq outs) = Some s \<and> status_tagged cs c s"
    if "out_called (CallStream cs now m ctx sreq outs) = [sr]" "outs sr = Return (cst, Some (Status c t))"
    using that
    by (auto simp add: CallStream_def entry_simps status_tagged_Finish
        updateSpanWithError_status split: option.splits go.splits)
  show "\<exists>s. hp_span (Handle_pooled cs commonTags now pick pool m req resw hw) = Some s
            \<and> status_tagged cs c s"
    if "hp_handled (Handle_pooled cs commonTags now pick pool m req resw hw) = [r]"
      "hw r = (calls, Return (Some (Status c t)))"
    using that writer_run_newWriter [of calls pick pool resw]
    by (auto simp add: Handle_pooled_def entry_simps status_tagged_Finish
        updateSpanWithError_status split: option.splits go.splits)
  show "\<exists>s. out_span (Call_pooled cs commonTags now m ctx req out) = Some s \<and> status_tagged cs c s"
    if "out_called (Call_pooled cs commonTags now m ctx req out) = [ro]"
      "out ro = Return (res, Some (Status c t))"
    using that
    by (auto simp add: Call_pooled_def entry_simps status_tagged_Finish
        updateSpanWithOutboundError_status split: option.splits go.splits)
qed

theorem status_error_tagged_with_code_witness:
  "(in_handled (Handle code_name 0 plain_interceptor a_request failing_handler) = [a_request]
      \<and> failing_handler a_request = Return (Some (Status 13 ''down''))
      \<and> (\<exists>s. in_span (Handle code_name 0 plain_interceptor a_request
          failing_handler) = Some s \<and> status_tagged code_name 13 s))
 \<and> (in_handled (HandleOneway code_name 0 plain_interceptor a_request failing_handler) =
     [a_request] \<and> failing_handler a_request = Return (Some (Status 13 ''down''))
      \<and> (\<exists>s. in_span (HandleOneway code_name 0 plain_interceptor a_request
          failing_handler) = Some s \<and> status_tagged code_name 13 s))
 \<and> (in_handled (HandleStream code_name 0 plain_interceptor a_stream failing_stream_handler)
     = [a_stream] \<and> failing_stream_handler a_stream = Return (Some (Status 13 ''down''))
      \<and> (\<exists>s. in_span (HandleStream code_name 0 plain_interceptor a_stream
          failing_stream_handler) = Some s \<and> status_tagged code_name 13 s))
 \<and> (out_called (Call code_name 0 plain_interceptor a_context a_request failing_outbound) =
     [a_sent_request] \<and> failing_outbound a_sent_request = Return (None, Some (Status 13
     ''down''))
      \<and> (\<exists>s. out_span (Call code_name 0 plain_interceptor a_context a_request
          failing_outbound) = Some s \<and> status_tagged code_name 13 s))
 \<and> (out_called (CallOneway code_name 0 plain_interceptor a_context a_request
     failing_oneway_outbound) = [a_sent_request] \<and> failing_oneway_outbound a_sent_request =
     Return (None, Some (Status 13 ''down''))
      \<and> (\<exists>s. out_span (CallOneway code_name 0 plain_interceptor a_context a_request
          failing_oneway_outbound) = Some s \<and> status_tagged code_name 13 s))
 \<and> (out_called (CallStream code_name 0 plain_interceptor a_context a_stream_request
     failing_stream_outbound) = [a_sent_stream_request] \<and> failing_stream_outbound
     a_sent_stream_request = Return (None, Some (Status 13 ''down''))
      \<and> (\<exists>s. out_span (CallStream code_name 0 plain_interceptor a_context
          a_stream_request failing_stream_outbound) = Some s \<and> status_tagged code_name 13
          s))
 \<and> (hp_handled (Handle_pooled code_name common_tags 0 0 [] plain_interceptor a_request
     a_writer failing_pooled_handler) = [a_request]
        \<and> failing_pooled_handler a_request = ([CallSetApplicationError], Return (Some
            (Status 13 ''down'')))
      \<and> (\<exists>s. hp_span (Handle_pooled code_name common_tags 0 0 [] plain_interceptor
          a_request a_writer failing_pooled_handler) = Some s
            \<and> status_tagged code_name 13 s))
 \<and> (out_called (Call_pooled code_name common_tags 0 plain_interceptor a_context a_request
     failing_outbound) = [a_sent_request]
        \<and> failing_outbound a_sent_request = Return (None, Some (Status 13 ''down''))
      \<and> (\<exists>s. out_span (Call_pooled code_name common_tags 0 plain_interceptor
          a_context a_request failing_outbound) = Some s
            \<and> status_tagged code_name 13 s))"
  using status_error_tagged_with_code [where cs = code_name and now = 0 and m =
      plain_interceptor and req = a_request and h = failing_handler and r = a_request and c = 13
      and t = "''down''" and sv = a_stream and hs = failing_stream_handler and rs = a_stream and
      ctx = a_context and out = failing_outbound and ro = a_sent_request and res = None and outo
      = failing_oneway_outbound and ack = None and sreq = a_stream_request and outs =
      failing_stream_outbound and sr = a_sent_stream_request and cst = None and commonTags =
      common_tags and pick = 0 and pool = "[]" and resw = a_writer and hw =
      failing_pooled_handler and calls = "[CallSetApplicationError]"]
  by (simp add: concrete_defs)

text \<open>
  Claim C2, as amended.  For every outbound unary call whose outbound was invoked and
  returned a non-nil error that is not a structured status, the span has the tag \<^verbatim>\<open>error\<close>
  set to true; its tag \<^verbatim>\<open>error.type\<close> is \<^verbatim>\<open>unknown_internal_yarpc\<close> when the response is nil
  or its application-error flag is false, and \<^verbatim>\<open>application_error\<close> when the response has
  the application-error flag set.
\<close>

theorem raw_outbound_error_type:
  "(out_called (Call cs now m ctx req out) = [ro] \<and> out ro = Return (res, Some (Raw t))
      \<longrightarrow> (\<exists>s. out_span (Call cs now m ctx req out) = Some s
            \<and> tag s ''error'' = Some (TBool True)
            \<and> tag s ''error.type'' = Some (TStr (if flagged res then ''application_error''
                                                  else ''unknown_internal_yarpc''))))
 \<and> (out_called (Call_pooled cs commonTags now m ctx req out) = [ro]
        \<and> out ro = Return (res, Some (Raw t))
      \<longrightarrow> (\<exists>s. out_span (Call_pooled cs commonTags now m ctx req out) = Some s
            \<and> tag s ''error'' = Some (TBool True)
            \<and> tag s ''error.type'' = Some (TStr (if flagged res then ''application_error''
                                                  else ''unknown_internal_yarpc''))))"
proof (intro conjI impI; (elim conjE)?)
  show "\<exists>s. out_span (Call cs now m ctx req out) = Some s
            \<and> tag s ''error'' = Some (TBool True)
            \<and> tag s ''error.type'' = Some (TStr (if flagged res then ''application_error''
                                                  else ''unknown_internal_yarpc''))"
    if "out_called (Call cs now m ctx req out) = [ro]" "out ro = Return (res, Some (Raw t))"
    using that
    by (auto simp add: Call_def entry_simps updateSpanWithOutboundError_raw tag_Finish
        tag_SetTag tag_ext_Error_Set split: option.splits go.splits)
  show "\<exists>s. out_span (Call_pooled cs commonTags now m ctx req out) = Some s
            \<and> tag s ''error'' = Some (TBool True)
            \<and> tag s ''error.type'' = Some (TStr (if flagged res then ''application_error''
                                                  else ''unknown_internal_yarpc''))"
    if "out_called (Call_pooled cs commonTags now m ctx req out) = [ro]"
      "out ro = Return (res, Some (Raw t))"
    using that
    by (auto simp add: Call_pooled_def entry_simps updateSpanWithOutboundError_raw tag_Finish
        tag_SetTag tag_ext_Error_Set split: option.splits go.splits)
qed

theorem raw_outbound_error_type_witness:
  "(out_called (Call code_name 0 plain_interceptor a_context a_request raw_flagged_outbound) =
      [a_sent_request] \<and> raw_flagged_outbound a_sent_request = Return ((Some (a_response
      True)), Some (Raw ''connection reset''))
      \<and> (\<exists>s. out_span (Call code_name 0 plain_interceptor a_context a_request
          raw_flagged_outbound) = Some s
            \<and> tag s ''error'' = Some (TBool True)
            \<and> tag s ''error.type'' = Some (TStr (if flagged (Some (a_response True)) then
                ''application_error''
                                                  else ''unknown_internal_yarpc''))))
 \<and> (out_called (Call_pooled code_name common_tags 0 plain_interceptor a_context a_request
     raw_flagged_outbound) = [a_sent_request]
        \<and> raw_flagged_outbound a_sent_request = Return ((Some (a_response True)), Some (Raw
            ''connection reset''))
      \<and> (\<exists>s. out_span (Call_pooled code_name common_tags 0 plain_interceptor
          a_context a_request raw_flagged_outbound) = Some s
            \<and> tag s ''error'' = Some (TBool True)
            \<and> tag s ''error.type'' = Some (TStr (if flagged (Some (a_response True)) then
                ''application_error''
                                                  else ''unknown_internal_yarpc''))))"
  using raw_outbound_error_type [where cs = code_name and now = 0 and m = plain_interceptor and
      ctx = a_context and req = a_request and out = raw_flagged_outbound and ro = a_sent_request
      and res = "(Some (a_response True))" and t = "''connection reset''" and commonTags =
      common_tags]
  by (simp add: concrete_defs)

text \<open>
  Claim C2 as stated fails: an outbound that returns a raw error together with a response
  whose application-error flag is set leaves the tag \<^verbatim>\<open>error.type\<close> at \<^verbatim>\<open>application_error\<close>,
  not at \<^verbatim>\<open>unknown_internal_yarpc\<close>.
\<close>

theorem raw_outbound_error_type_counterexample:
  "out_called (Call code_name 0 plain_interceptor None a_request raw_flagged_outbound)
     = [a_sent_request]
   \<and> raw_flagged_outbound a_sent_request
     = Return (Some (a_response True), Some (Raw ''connection reset''))
   \<and> span_tag (out_span (Call code_name 0 plain_interceptor None a_request raw_flagged_outbound))
       ''error.type'' = Some (TStr ''application_error'')"
  by (simp add: concrete_defs)

text \<open>
  Claim C3, as amended.  For every outbound call (unary, oneway, stream, and the unary
  call of the pooled version) where \<^verbatim>\<open>Inject\<close> returns a non-nil error, the only tag the
  interceptor sets on the span is \<^verbatim>\<open>error\<close>, to true, and it logs one record with the
  fields \<^verbatim>\<open>event = error\<close> and \<^verbatim>\<open>message\<close>, the text of the error; it sets no tag
  \<^verbatim>\<open>error.type\<close>.
\<close>

theorem inject_failure_tags:
  assumes "tracer m = Some tr" and "snd (injected tr m ctx) = Some e"
  shows "(\<exists>s. out_span (Call cs now m ctx req out) = Some s
            \<and> tags s = [(''error'', TBool True)]
            \<and> logs s = [[(''event'', ''error''), (''message'', Error e)]])
       \<and> (\<exists>s. out_span (CallOneway cs now m ctx req outo) = Some s
            \<and> tags s = [(''error'', TBool True)]
            \<and> logs s = [[(''event'', ''error''), (''message'', Error e)]])
       \<and> (\<exists>s. out_span (CallStream cs now m ctx sreq outs) = Some s
            \<and> tags s = [(''error'', TBool True)]
            \<and> logs s = [[(''event'', ''error''), (''message'', Error e)]])
       \<and> (\<exists>s. out_span (Call_pooled cs commonTags now m ctx req out) = Some s
            \<and> tags s = (''error'', TBool True) # commonTags
            \<and> logs s = [[(''event'', ''error''), (''message'', Error e)]])"
proof -
  from assms(2) obtain hdrs where inj: "injected tr m ctx = (hdrs, Some e)"
    by (cases "injected tr m ctx") simp
  have 1: "\<exists>s. out_span (Call cs now m ctx req out) = Some s
            \<and> tags s = [(''error'', TBool True)]
            \<and> logs s = [[(''event'', ''error''), (''message'', Error e)]]"
    using inj assms(1) Inject_Create_Do [of tr m now "[]" ctx req]
    by (simp add: Call_def Let_def tags_Finish logs_Finish ext_Error_Set_def
    SetTag_def LogFields_def) (simp add: CreateOpenTracingSpan_Do_def)
  have 2: "\<exists>s. out_span (CallOneway cs now m ctx req outo) = Some s
            \<and> tags s = [(''error'', TBool True)]
            \<and> logs s = [[(''event'', ''error''), (''message'', Error e)]]"
    using inj assms(1) Inject_Create_Do [of tr m now "[]" ctx req]
    by (simp add: CallOneway_def Let_def tags_Finish logs_Finish ext_Error_Set_def
    SetTag_def LogFields_def) (simp add: CreateOpenTracingSpan_Do_def)
  have 3: "\<exists>s. out_span (CallStream cs now m ctx sreq outs) = Some s
            \<and> tags s = [(''error'', TBool True)]
            \<and> logs s = [[(''event'', ''error''), (''message'', Error e)]]"
    using inj assms(1) Inject_Create_Do [of tr m now "[]" ctx "Meta sreq"]
    by (simp add: CallStream_def Let_def tags_Finish logs_Finish ext_Error_Set_def
    SetTag_def LogFields_def) (simp add: CreateOpenTracingSpan_Do_def)
  have 4: "\<exists>s. out_span (Call_pooled cs commonTags now m ctx req out) = Some s
            \<and> tags s = (''error'', TBool True) # commonTags
            \<and> logs s = [[(''event'', ''error''), (''message'', Error e)]]"
    using inj assms(1) Inject_Create_Do [of tr m now commonTags ctx req]
    by (simp add: Call_pooled_def Let_def tags_Finish logs_Finish ext_Error_Set_def
    SetTag_def LogFields_def) (simp add: CreateOpenTracingSpan_Do_def)
  from 1 2 3 4 show ?thesis by blast
qed

theorem inject_failure_tags_witness:
  "tracer failing_interceptor = Some failing_tracer \<and> snd (injected failing_tracer
      failing_interceptor a_context) = Some (Raw ''unsupported format'')
 \<and> (\<exists>s. out_span (Call code_name 0 failing_interceptor a_context a_request
     failing_outbound) = Some s
            \<and> tags s = [(''error'', TBool True)]
            \<and> logs s = [[(''event'', ''error''), (''message'', Error (Raw
                ''unsupported format''))]])
       \<and> (\<exists>s. out_span (CallOneway code_name 0 failing_interceptor a_context
           a_request failing_oneway_outbound) = Some s
            \<and> tags s = [(''error'', TBool True)]
            \<and> logs s = [[(''event'', ''error''), (''message'', Error (Raw
                ''unsupported format''))]])
       \<and> (\<exists>s. out_span (CallStream code_name 0 failing_interceptor a_context
           a_stream_request failing_stream_outbound) = Some s
            \<and> tags s = [(''error'', TBool True)]
            \<and> logs s = [[(''event'', ''error''), (''message'', Error (Raw
                ''unsupported format''))]])
       \<and> (\<exists>s. out_span (Call_pooled code_name common_tags 0 failing_interceptor
           a_context a_request failing_outbound) = Some s
            \<and> tags s = (''error'', TBool True) # common_tags
            \<and> logs s = [[(''event'', ''error''), (''message'', Error (Raw
                ''unsupported format''))]])"
  using inject_failure_tags [where m = failing_interceptor and tr = failing_tracer and ctx =
      a_context and e = "(Raw ''unsupported format'')" and cs = code_name and now = 0 and req =
      a_request and out = failing_outbound and outo = failing_oneway_outbound and sreq =
      a_stream_request and outs = failing_stream_outbound and commonTags = common_tags]
  by (simp add: concrete_defs)

text \<open>
  Claim C3 as stated fails: with a tracer whose \<^verbatim>\<open>Inject\<close> returns an error, the span of an
  outbound unary call has the tag \<^verbatim>\<open>error\<close> and no tag \<^verbatim>\<open>error.type\<close>.
\<close>

theorem inject_failure_error_type_counterexample:
  "snd (injected failing_tracer failing_interceptor None) = Some (Raw ''unsupported format'')
   \<and> span_tag (out_span (Call code_name 0 failing_interceptor None a_request failing_outbound))
       ''error'' = Some (TBool True)
   \<and> span_tag (out_span (Call code_name 0 failing_interceptor None a_request failing_outbound))
       ''error.type'' = None"
  by (simp add: concrete_defs)

text \<open>
  Claim C4.  For every outbound call (unary, oneway, stream, and the unary call of the
  pooled version) where \<^verbatim>\<open>Inject\<close> returns the non-nil error \<open>e\<close>, the wrapped outbound is
  not invoked, the call returns nil with the error \<open>e\<close>, and the span is tagged
  \<^verbatim>\<open>error\<close> and finished once.
\<close>

theorem inject_failure_short_circuits:
  assumes "tracer m = Some tr" and "snd (injected tr m ctx) = Some e"
  shows "(out_called (Call cs now m ctx req out) = []
          \<and> out_returned (Call cs now m ctx req out) = Return (None, Some e)
          \<and> (\<exists>s. out_span (Call cs now m ctx req out) = Some s
                \<and> tag s ''error'' = Some (TBool True) \<and> finishes s = 1))
       \<and> (out_called (CallOneway cs now m ctx req outo) = []
          \<and> out_returned (CallOneway cs now m ctx req outo) = Return (None, Some e)
          \<and> (\<exists>s. out_span (CallOneway cs now m ctx req outo) = Some s
                \<and> tag s ''error'' = Some (TBool True) \<and> finishes s = 1))
       \<and> (out_called (CallStream cs now m ctx sreq outs) = []
          \<and> out_returned (CallStream cs now m ctx sreq outs) = Return (None, Some e)
          \<and> (\<exists>s. out_span (CallStream cs now m ctx sreq outs) = Some s
                \<and> tag s ''error'' = Some (TBool True) \<and> finishes s = 1))
       \<and> (out_called (Call_pooled cs commonTags now m ctx req out) = []
          \<and> out_returned (Call_pooled cs commonTags now m ctx req out) = Return (None, Some e)
          \<and> (\<exists>s. out_span (Call_pooled cs commonTags now m ctx req out) = Some s
                \<and> tag s ''error'' = Some (TBool True) \<and> finishes s = 1))"
proof -
  from assms(2) obtain hdrs where inj: "injected tr m ctx = (hdrs, Some e)"
    by (cases "injected tr m ctx") simp
  note facts = entry_simps assms(1) inj tag_Finish tag_LogFields tag_ext_Error_Set
    finishes_Finish finishes_LogFields finishes_SetTag finishes_Create_Do ext_Error_Set_def
  have 1: "out_called (Call cs now m ctx req out) = []
          \<and> out_returned (Call cs now m ctx req out) = Return (None, Some e)
          \<and> (\<exists>s. out_span (Call cs now m ctx req out) = Some s
                \<and> tag s ''error'' = Some (TBool True) \<and> finishes s = 1)"
    by (simp add: Call_def facts tag_SetTag)
  have 2: "out_called (CallOneway cs now m ctx req outo) = []
          \<and> out_returned (CallOneway cs now m ctx req outo) = Return (None, Some e)
          \<and> (\<exists>s. out_span (CallOneway cs now m ctx req outo) = Some s
                \<and> tag s ''error'' = Some (TBool True) \<and> finishes s = 1)"
    by (simp add: CallOneway_def facts tag_SetTag)
  have 3: "out_called (CallStream cs now m ctx sreq outs) = []
          \<and> out_returned (CallStream cs now m ctx sreq outs) = Return (None, Some e)
          \<and> (\<exists>s. out_span (CallStream cs now m ctx sreq outs) = Some s
                \<and> tag s ''error'' = Some (TBool True) \<and> finishes s = 1)"
    by (simp add: CallStream_def facts tag_SetTag)
  have 4: "out_called (Call_pooled cs commonTags now m ctx req out) = []
          \<and> out_returned (Call_pooled cs commonTags now m ctx req out) = Return (None, Some e)
          \<and> (\<exists>s. out_span (Call_pooled cs commonTags now m ctx req out) = Some s
                \<and> tag s ''error'' = Some (TBool True) \<and> finishes s = 1)"
    by (simp add: Call_pooled_def facts tag_SetTag)
  from 1 2 3 4 show ?thesis by blast
qed

theorem inject_failure_short_circuits_witness:
  "tracer failing_interceptor = Some failing_tracer \<and> snd (injected failing_tracer
      failing_interceptor a_context) = Some (Raw ''unsupported format'')
 \<and> (out_called (Call code_name 0 failing_interceptor a_context a_request failing_outbound)
     = []
          \<and> out_returned (Call code_name 0 failing_interceptor a_context a_request
              failing_outbound) = Return (None, Some (Raw ''unsupported format''))
          \<and> (\<exists>s. out_span (Call code_name 0 failing_interceptor a_context a_request
              failing_outbound) = Some s
                \<and> tag s ''error'' = Some (TBool True) \<and> finishes s = 1))
       \<and> (out_called (CallOneway code_name 0 failing_interceptor a_context a_request
           failing_oneway_outbound) = []
          \<and> out_returned (CallOneway code_name 0 failing_interceptor a_context a_request
              failing_oneway_outbound) = Return (None, Some (Raw ''unsupported format''))
          \<and> (\<exists>s. out_span (CallOneway code_name 0 failing_interceptor a_context
              a_request failing_oneway_outbound) = Some s
                \<and> tag s ''error'' = Some (TBool True) \<and> finishes s = 1))
       \<and> (out_called (CallStream code_name 0 failing_interceptor a_context a_stream_request
           failing_stream_outbound) = []
          \<and> out_returned (CallStream code_name 0 failing_interceptor a_context
              a_stream_request failing_stream_outbound) = Return (None, Some (Raw
              ''unsupported format''))
          \<and> (\<exists>s. out_span (CallStream code_name 0 failing_interceptor a_context
              a_stream_request failing_stream_outbound) = Some s
                \<and> tag s ''error'' = Some (TBool True) \<and> finishes s = 1))
       \<and> (out_called (Call_pooled code_name common_tags 0 failing_interceptor a_context
           a_request failing_outbound) = []
          \<and> out_returned (Call_pooled code_name common_tags 0 failing_interceptor a_context
              a_request failing_outbound) = Return (None, Some (Raw ''unsupported format''))
          \<and> (\<exists>s. out_span (Call_pooled code_name common_tags 0 failing_interceptor
              a_context a_request failing_outbound) = Some s
                \<and> tag s ''error'' = Some (TBool True) \<and> finishes s = 1))"
  using inject_failure_short_circuits [where m = failing_interceptor and tr = failing_tracer and
      ctx = a_context and e = "(Raw ''unsupported format'')" and cs = code_name and now = 0 and
      req = a_request and out = failing_outbound and outo = failing_oneway_outbound and sreq =
      a_stream_request and outs = failing_stream_outbound and commonTags = common_tags]
  by (simp add: concrete_defs)

text \<open>
  Claim C5.  For every outbound unary call whose outbound was invoked and returned a nil
  error with a non-nil response that has the application-error flag set, the span has the
  tag \<^verbatim>\<open>error\<close> set to true and the tag \<^verbatim>\<open>error.type\<close> set to \<^verbatim>\<open>application_error\<close>, and the
  call returns that response with a nil error.
\<close>

theorem application_error_response_tagged:
  "(out_called (Call cs now m ctx req out) = [ro] \<and> out ro = Return (Some resp, None)
        \<and> ApplicationError resp
      \<longrightarrow> (\<exists>s. out_span (Call cs now m ctx req out) = Some s
            \<and> tag s ''error'' = Some (TBool True)
            \<and> tag s ''error.type'' = Some (TStr ''application_error''))
          \<and> out_returned (Call cs now m ctx req out) = Return (Some resp, None))
 \<and> (out_called (Call_pooled cs commonTags now m ctx req out) = [ro]
        \<and> out ro = Return (Some resp, None) \<and> ApplicationError resp
      \<longrightarrow> (\<exists>s. out_span (Call_pooled cs commonTags now m ctx req out) = Some s
            \<and> tag s ''error'' = Some (TBool True)
            \<and> tag s ''error.type'' = Some (TStr ''application_error''))
          \<and> out_returned (Call_pooled cs commonTags now m ctx req out) = Return (Some resp, None))"
proof (intro conjI impI; (elim conjE)?)
  assume a: "out_called (Call cs now m ctx req out) = [ro]" "out ro = Return (Some resp, None)"
    "ApplicationError resp"
  show "\<exists>s. out_span (Call cs now m ctx req out) = Some s
            \<and> tag s ''error'' = Some (TBool True)
            \<and> tag s ''error.type'' = Some (TStr ''application_error'')"
    using a
    by (auto simp add: Call_def entry_simps updateSpanWithOutboundError_application tag_Finish
        tag_SetTag tag_ext_Error_Set split: option.splits go.splits)
  show "out_returned (Call cs now m ctx req out) = Return (Some resp, None)"
    using a
    by (auto simp add: Call_def entry_simps updateSpanWithOutboundError_returns
        split: option.splits go.splits)
next
  assume a: "out_called (Call_pooled cs commonTags now m ctx req out) = [ro]"
    "out ro = Return (Some resp, None)" "ApplicationError resp"
  show "\<exists>s. out_span (Call_pooled cs commonTags now m ctx req out) = Some s
            \<and> tag s ''error'' = Some (TBool True)
            \<and> tag s ''error.type'' = Some (TStr ''application_error'')"
    using a
    by (auto simp add: Call_pooled_def entry_simps updateSpanWithOutboundError_application
        tag_Finish tag_SetTag tag_ext_Error_Set split: option.splits go.splits)
  show "out_returned (Call_pooled cs commonTags now m ctx req out) = Return (Some resp, None)"
    using a
    by (auto simp add: Call_pooled_def entry_simps updateSpanWithOutboundError_returns
        split: option.splits go.splits)
qed

theorem application_error_response_tagged_witness:
  "(out_called (Call code_name 0 plain_interceptor a_context a_request flagged_outbound) =
      [a_sent_request] \<and> flagged_outbound a_sent_request = Return (Some (a_response True),
      None)
        \<and> ApplicationError (a_response True)
      \<and> (\<exists>s. out_span (Call code_name 0 plain_interceptor a_context a_request
          flagged_outbound) = Some s
            \<and> tag s ''error'' = Some (TBool True)
            \<and> tag s ''error.type'' = Some (TStr ''application_error''))
          \<and> out_returned (Call code_name 0 plain_interceptor a_context a_request
              flagged_outbound) = Return (Some (a_response True), None))
 \<and> (out_called (Call_pooled code_name common_tags 0 plain_interceptor a_context a_request
     flagged_outbound) = [a_sent_request]
        \<and> flagged_outbound a_sent_request = Return (Some (a_response True), None) \<and>
            ApplicationError (a_response True)
      \<and> (\<exists>s. out_span (Call_pooled code_name common_tags 0 plain_interceptor
          a_context a_request flagged_outbound) = Some s
            \<and> tag s ''error'' = Some (TBool True)
            \<and> tag s ''error.type'' = Some (TStr ''application_error''))
          \<and> out_returned (Call_pooled code_name common_tags 0 plain_interceptor a_context
              a_request flagged_outbound) = Return (Some (a_response True), None))"
  using application_error_response_tagged [where cs = code_name and now = 0 and m =
      plain_interceptor and ctx = a_context and req = a_request and out = flagged_outbound and
      ro = a_sent_request and resp = "(a_response True)" and commonTags = common_tags]
  by (simp add: concrete_defs)

text \<open>
  Claim C6.  For every inbound call (unary, oneway, stream, and the unary call of the
  pooled version) of an interceptor with a tracer, a span is started and it is finished
  exactly once: whatever the handler does (it returns nil, it returns an error, it
  panics) and whatever \<^verbatim>\<open>Extract\<close> finds in the carrier (a parent context or none).
\<close>

theorem inbound_span_finished_once:
  assumes "tracer m = Some tr"
  shows "(\<exists>s. in_span (Handle cs now m req h) = Some s \<and> finishes s = 1)
       \<and> (\<exists>s. in_span (HandleOneway cs now m req h) = Some s \<and> finishes s = 1)
       \<and> (\<exists>s. in_span (HandleStream cs now m sv hs) = Some s \<and> finishes s = 1)
       \<and> (\<exists>s. hp_span (Handle_pooled cs commonTags now pick pool m req resw hw) = Some s
              \<and> finishes s = 1)"
proof (intro conjI)
  show "\<exists>s. in_span (Handle cs now m req h) = Some s \<and> finishes s = 1"
    using assms
    by (simp add: Handle_def entry_simps finishes_Finish finishes_Extract_Do
        updateSpanWithError_finishes split: go.split)
  show "\<exists>s. in_span (HandleOneway cs now m req h) = Some s \<and> finishes s = 1"
    using assms
    by (simp add: HandleOneway_def entry_simps finishes_Finish finishes_Extract_Do
        updateSpanWithError_finishes split: go.split)
  show "\<exists>s. in_span (HandleStream cs now m sv hs) = Some s \<and> finishes s = 1"
    using assms
    by (simp add: HandleStream_def entry_simps finishes_Finish finishes_Extract_Do
        updateSpanWithError_finishes split: go.split)
  show "\<exists>s. hp_span (Handle_pooled cs commonTags now pick pool m req resw hw) = Some s
              \<and> finishes s = 1"
    using assms
    by (simp add: Handle_pooled_def entry_simps finishes_Finish finishes_Extract_Do
        finishes_SetTag updateSpanWithError_finishes split: go.split)
qed

theorem inbound_span_finished_once_witness:
  "tracer plain_interceptor = Some plain_tracer
 \<and> (\<exists>s. in_span (Handle code_name 0 plain_interceptor a_request failing_handler) =
     Some s \<and> finishes s = 1)
       \<and> (\<exists>s. in_span (HandleOneway code_name 0 plain_interceptor a_request
           failing_handler) = Some s \<and> finishes s = 1)
       \<and> (\<exists>s. in_span (HandleStream code_name 0 plain_interceptor a_stream
           failing_stream_handler) = Some s \<and> finishes s = 1)
       \<and> (\<exists>s. hp_span (Handle_pooled code_name common_tags 0 0 [] plain_interceptor
           a_request a_writer failing_pooled_handler) = Some s
              \<and> finishes s = 1)"
  using inbound_span_finished_once [where m = plain_interceptor and tr = plain_tracer and cs =
      code_name and now = 0 and req = a_request and h = failing_handler and sv = a_stream and hs
      = failing_stream_handler and commonTags = common_tags and pick = 0 and pool = "[]" and
      resw = a_writer and hw = failing_pooled_handler]
  by (simp add: concrete_defs)

text \<open>
  Claim C7.  In every call shape and direction, when the wrapped handler or outbound was
  invoked and returned the error \<open>err\<close> (nil or not), the entry point returns \<open>err\<close> itself,
  with the response, ack or stream of the outbound; both classifiers return the error
  they were given, whatever the span.
\<close>

theorem downstream_error_returned_unchanged:
  "(in_handled (Handle cs now m req h) = [r] \<and> h r = Return err
      \<longrightarrow> in_returned (Handle cs now m req h) = Return err)
 \<and> (in_handled (HandleOneway cs now m req h) = [r] \<and> h r = Return err
      \<longrightarrow> in_returned (HandleOneway cs now m req h) = Return err)
 \<and> (in_handled (HandleStream cs now m sv hs) = [rs] \<and> hs rs = Return err
      \<longrightarrow> in_returned (HandleStream cs now m sv hs) = Return err)
 \<and> (out_called (Call cs now m ctx req out) = [ro] \<and> out ro = Return (res, err)
      \<longrightarrow> out_returned (Call cs now m ctx req out) = Return (res, err))
 \<and> (out_called (CallOneway cs now m ctx req outo) = [ro] \<and> outo ro = Return (ack, err)
      \<longrightarrow> out_returned (CallOneway cs now m ctx req outo) = Return (ack, err))
 \<and> (out_called (CallStream cs now m ctx sreq outs) = [sr] \<and> outs sr = Return (cst, err)
      \<longrightarrow> out_returned (CallStream cs now m ctx sreq outs) = Return (cst, err))
 \<and> (hp_handled (Handle_pooled cs commonTags now pick pool m req resw hw) = [r]
        \<and> hw r = (calls, Return err)
      \<longrightarrow> hp_returned (Handle_pooled cs commonTags now pick pool m req resw hw) = Return err)
 \<and> (out_called (Call_pooled cs commonTags now m ctx req out) = [ro] \<and> out ro = Return (res, err)
      \<longrightarrow> out_returned (Call_pooled cs commonTags now m ctx req out) = Return (res, err))
 \<and> snd (updateSpanWithError cs sp err) = err
 \<and> snd (updateSpanWithOutboundError cs sp res err) = err"
proof (intro conjI impI; (elim conjE)?)
  show "in_returned (Handle cs now m req h) = Return err"
    if "in_handled (Handle cs now m req h) = [r]" "h r = Return err"
    using that
    by (auto simp add: Handle_def entry_simps updateSpanWithError_returns
        split: option.splits go.splits)
  show "in_returned (HandleOneway cs now m req h) = Return err"
    if "in_handled (HandleOneway cs now m req h) = [r]" "h r = Return err"
    using that
    by (auto simp add: HandleOneway_def entry_simps updateSpanWithError_returns
        split: option.splits go.splits)
  show "in_returned (HandleStream cs now m sv hs) = Return err"
    if "in_handled (HandleStream cs now m sv hs) = [rs]" "hs rs = Return err"
    using that
    by (auto simp add: HandleStream_def entry_simps updateSpanWithError_returns
        split: option.splits go.splits)
  show "out_returned (Call cs now m ctx req out) = Return (res, err)"
    if "out_called (Call cs now m ctx req out) = [ro]" "out ro = Return (res, err)"
    using that
    by (auto simp add: Call_def entry_simps updateSpanWithOutboundError_returns
        split: option.splits go.splits)
  show "out_returned (CallOneway cs now m ctx req outo) = Return (ack, err)"
    if "out_called (CallOneway cs now m ctx req outo) = [ro]" "outo ro = Return (ack, err)"
    using that
    by (auto simp add: CallOneway_def entry_simps updateSpanWithError_returns
        split: option.splits go.splits)
  show "out_returned (CallStream cs now m ctx sreq outs) = Return (cst, err)"
    if "out_called (CallStream cs now m ctx sreq outs) = [sr]" "outs sr = Return (cst, err)"
    using that
    by (auto simp add: CallStream_def entry_simps updateSpanWithError_returns
        split: option.splits go.splits)
  show "hp_returned (Handle_pooled cs commonTags now pick pool m req resw hw) = Return err"
    if "hp_handled (Handle_pooled cs commonTags now pick pool m req resw hw) = [r]"
      "hw r = (calls, Return err)"
    using that writer_run_newWriter [of calls pick pool resw]
    by (auto simp add: Handle_pooled_def entry_simps updateSpanWithError_returns
        split: option.splits go.splits)
  show "out_returned (Call_pooled cs commonTags now m ctx req out) = Return (res, err)"
    if "out_called (Call_pooled cs commonTags now m ctx req out) = [ro]" "out ro = Return (res, err)"
    using that
    by (auto simp add: Call_pooled_def entry_simps updateSpanWithOutboundError_returns
        split: option.splits go.splits)
  show "snd (updateSpanWithError cs sp err) = err"
    by (rule updateSpanWithError_returns)
  show "snd (updateSpanWithOutboundError cs sp res err) = err"
    by (rule updateSpanWithOutboundError_returns)
qed

theorem downstream_error_returned_unchanged_witness:
  "(in_handled (Handle code_name 0 plain_interceptor a_request failing_handler) = [a_request]
      \<and> failing_handler a_request = Return (Some a_status)
      \<and> in_returned (Handle code_name 0 plain_interceptor a_request failing_handler) =
          Return (Some a_status))
 \<and> (in_handled (HandleOneway code_name 0 plain_interceptor a_request failing_handler) =
     [a_request] \<and> failing_handler a_request = Return (Some a_status)
      \<and> in_returned (HandleOneway code_name 0 plain_interceptor a_request failing_handler)
          = Return (Some a_status))
 \<and> (in_handled (HandleStream code_name 0 plain_interceptor a_stream failing_stream_handler)
     = [a_stream] \<and> failing_stream_handler a_stream = Return (Some a_status)
      \<and> in_returned (HandleStream code_name 0 plain_interceptor a_stream
          failing_stream_handler) = Return (Some a_status))
 \<and> (out_called (Call code_name 0 plain_interceptor a_context a_request failing_outbound) =
     [a_sent_request] \<and> failing_outbound a_sent_request = Return (None, (Some a_status))
      \<and> out_returned (Call code_name 0 plain_interceptor a_context a_request
          failing_outbound) = Return (None, (Some a_status)))
 \<and> (out_called (CallOneway code_name 0 plain_interceptor a_context a_request
     failing_oneway_outbound) = [a_sent_request] \<and> failing_oneway_outbound a_sent_request =
     Return (None, (Some a_status))
      \<and> out_returned (CallOneway code_name 0 plain_interceptor a_context a_request
          failing_oneway_outbound) = Return (None, (Some a_status)))
 \<and> (out_called (CallStream code_name 0 plain_interceptor a_context a_stream_request
     failing_stream_outbound) = [a_sent_stream_request] \<and> failing_stream_outbound
     a_sent_stream_request = Return (None, (Some a_status))
      \<and> out_returned (CallStream code_name 0 plain_interceptor a_context a_stream_request
          failing_stream_outbound) = Return (None, (Some a_status)))
 \<and> (hp_handled (Handle_pooled code_name common_tags 0 0 [] plain_interceptor a_request
     a_writer failing_pooled_handler) = [a_request]
        \<and> failing_pooled_handler a_request = ([CallSetApplicationError], Return (Some
            a_status))
      \<and> hp_returned (Handle_pooled code_name common_tags 0 0 [] plain_interceptor a_request
          a_writer failing_pooled_handler) = Return (Some a_status))
 \<and> (out_called (Call_pooled code_name common_tags 0 plain_interceptor a_context a_request
     failing_outbound) = [a_sent_request] \<and> failing_outbound a_sent_request = Return (None,
     (Some a_status))
      \<and> out_returned (Call_pooled code_name common_tags 0 plain_interceptor a_context
          a_request failing_outbound) = Return (None, (Some a_status)))
 \<and> snd (updateSpanWithError code_name (Finish (CreateOpenTracingSpan_Do plain_tracer [] 0
     [] a_context a_request)) (Some a_status)) = (Some a_status)
 \<and> snd (updateSpanWithOutboundError code_name (Finish (CreateOpenTracingSpan_Do
     plain_tracer [] 0 [] a_context a_request)) None (Some a_status)) = (Some a_status)"
  using downstream_error_returned_unchanged [where cs = code_name and now = 0 and m =
      plain_interceptor and req = a_request and h = failing_handler and r = a_request and err =
      "(Some a_status)" and sv = a_stream and hs = failing_stream_handler and rs = a_stream and
      ctx = a_context and out = failing_outbound and ro = a_sent_request and res = None and outo
      = failing_oneway_outbound and ack = None and sreq = a_stream_request and outs =
      failing_stream_outbound and sr = a_sent_stream_request and cst = None and commonTags =
      common_tags and pick = 0 and pool = "[]" and resw = a_writer and hw =
      failing_pooled_handler and calls = "[CallSetApplicationError]" and sp = "(Finish
      (CreateOpenTracingSpan_Do plain_tracer [] 0 [] a_context a_request))"]
  by (simp add: concrete_defs)

text \<open>
  Claim C8, as amended.  For every \<^verbatim>\<open>Params\<close> with a nil \<^verbatim>\<open>Tracer\<close>, \<^verbatim>\<open>New\<close> reads the global
  tracer once, at construction, and stores it: the field \<open>tracer\<close> is the global tracer of
  that time, with no check for nil.  Provided that the global tracer is not nil, the field
  is not nil and every entry point of the interceptor built starts its span with that
  tracer (the entry points read the field only): an inbound one under the parent that was
  extracted, an outbound one under the span of the context of the caller.
\<close>

theorem New_stores_global_tracer:
  assumes "Tracer p = None"
  shows "tracer (New formatFor global p) = global
       \<and> (global = Some g \<longrightarrow>
           (\<exists>s. in_span (Handle cs now (New formatFor global p) req h) = Some s
             \<and> spanContext s = StartSpanContext g (parentContext s))
         \<and> (\<exists>s. in_span (HandleOneway cs now (New formatFor global p) req h) = Some s
             \<and> spanContext s = StartSpanContext g (parentContext s))
         \<and> (\<exists>s. in_span (HandleStream cs now (New formatFor global p) sv hs) = Some s
             \<and> spanContext s = StartSpanContext g (parentContext s))
         \<and> (\<exists>s. out_span (Call cs now (New formatFor global p) ctx req out) = Some s
             \<and> spanContext s = StartSpanContext g ctx \<and> parentContext s = ctx)
         \<and> (\<exists>s. out_span (CallOneway cs now (New formatFor global p) ctx req outo) = Some s
             \<and> spanContext s = StartSpanContext g ctx \<and> parentContext s = ctx)
         \<and> (\<exists>s. out_span (CallStream cs now (New formatFor global p) ctx sreq outs) = Some s
             \<and> spanContext s = StartSpanContext g ctx \<and> parentContext s = ctx)
         \<and> (\<exists>s. hp_span (Handle_pooled cs commonTags now pick pool (New formatFor global p)
                        req resw hw) = Some s
             \<and> spanContext s = StartSpanContext g (parentContext s))
         \<and> (\<exists>s. out_span (Call_pooled cs commonTags now (New formatFor global p) ctx req out)
                  = Some s
             \<and> spanContext s = StartSpanContext g ctx \<and> parentContext s = ctx))"
proof (intro conjI impI)
  show "tracer (New formatFor global p) = global"
    using assms by (simp add: New_tracer)
next
  assume g: "global = Some g"
  have t: "tracer (New formatFor global p) = Some g"
    using assms g by (simp add: New_tracer)
  note kept = t Let_def case_prod_beta span_origin_kept span_origin_started
  show "\<exists>s. in_span (Handle cs now (New formatFor global p) req h) = Some s
             \<and> spanContext s = StartSpanContext g (parentContext s)"
    by (simp add: Handle_def kept split: go.split)
  show "\<exists>s. in_span (HandleOneway cs now (New formatFor global p) req h) = Some s
             \<and> spanContext s = StartSpanContext g (parentContext s)"
    by (simp add: HandleOneway_def kept split: go.split)
  show "\<exists>s. in_span (HandleStream cs now (New formatFor global p) sv hs) = Some s
             \<and> spanContext s = StartSpanContext g (parentContext s)"
    by (simp add: HandleStream_def kept split: go.split)
  show "\<exists>s. out_span (Call cs now (New formatFor global p) ctx req out) = Some s
             \<and> spanContext s = StartSpanContext g ctx \<and> parentContext s = ctx"
    by (simp add: Call_def kept split: go.split option.split prod.split)
  show "\<exists>s. out_span (CallOneway cs now (New formatFor global p) ctx req outo) = Some s
             \<and> spanContext s = StartSpanContext g ctx \<and> parentContext s = ctx"
    by (simp add: CallOneway_def kept split: go.split option.split prod.split)
  show "\<exists>s. out_span (CallStream cs now (New formatFor global p) ctx sreq outs) = Some s
             \<and> spanContext s = StartSpanContext g ctx \<and> parentContext s = ctx"
    by (simp add: CallStream_def kept split: go.split option.split prod.split)
  show "\<exists>s. hp_span (Handle_pooled cs commonTags now pick pool (New formatFor global p)
                        req resw hw) = Some s
             \<and> spanContext s = StartSpanContext g (parentContext s)"
    by (simp add: Handle_pooled_def kept split: go.split)
  show "\<exists>s. out_span (Call_pooled cs commonTags now (New formatFor global p) ctx req out)
                  = Some s
             \<and> spanContext s = StartSpanContext g ctx \<and> parentContext s = ctx"
    by (simp add: Call_pooled_def kept split: go.split option.split prod.split)
qed

theorem New_stores_global_tracer_witness:
  "Tracer params_without_tracer = None
 \<and> tracer (New a_format_for (Some plain_tracer) params_without_tracer) = (Some
     plain_tracer)
       \<and> ((Some plain_tracer) = Some plain_tracer \<and>
           (\<exists>s. in_span (Handle code_name 0 (New a_format_for (Some plain_tracer)
               params_without_tracer) a_request failing_handler) = Some s
             \<and> spanContext s = StartSpanContext plain_tracer (parentContext s))
         \<and> (\<exists>s. in_span (HandleOneway code_name 0 (New a_format_for (Some
             plain_tracer) params_without_tracer) a_request failing_handler) = Some s
             \<and> spanContext s = StartSpanContext plain_tracer (parentContext s))
         \<and> (\<exists>s. in_span (HandleStream code_name 0 (New a_format_for (Some
             plain_tracer) params_without_tracer) a_stream failing_stream_handler) = Some s
             \<and> spanContext s = StartSpanContext plain_tracer (parentContext s))
         \<and> (\<exists>s. out_span (Call code_name 0 (New a_format_for (Some plain_tracer)
             params_without_tracer) a_context a_request failing_outbound) = Some s
             \<and> spanContext s = StartSpanContext plain_tracer a_context \<and> parentContext
                 s = a_context)
         \<and> (\<exists>s. out_span (CallOneway code_name 0 (New a_format_for (Some
             plain_tracer) params_without_tracer) a_context a_request failing_oneway_outbound) =
             Some s
             \<and> spanContext s = StartSpanContext plain_tracer a_context \<and> parentContext
                 s = a_context)
         \<and> (\<exists>s. out_span (CallStream code_name 0 (New a_format_for (Some
             plain_tracer) params_without_tracer) a_context a_stream_request
             failing_stream_outbound) = Some s
             \<and> spanContext s = StartSpanContext plain_tracer a_context \<and> parentContext
                 s = a_context)
         \<and> (\<exists>s. hp_span (Handle_pooled code_name common_tags 0 0 [] (New
             a_format_for (Some plain_tracer) params_without_tracer)
                        a_request a_writer failing_pooled_handler) = Some s
             \<and> spanContext s = StartSpanContext plain_tracer (parentContext s))
         \<and> (\<exists>s. out_span (Call_pooled code_name common_tags 0 (New a_format_for
             (Some plain_tracer) params_without_tracer) a_context a_request failing_outbound)
                  = Some s
             \<and> spanContext s = StartSpanContext plain_tracer a_context \<and> parentContext
                 s = a_context))"
  using New_stores_global_tracer [where p = params_without_tracer and formatFor = a_format_for
      and global = "(Some plain_tracer)" and g = plain_tracer and cs = code_name and now = 0 and
      req = a_request and h = failing_handler and sv = a_stream and hs = failing_stream_handler
      and ctx = a_context and out = failing_outbound and outo = failing_oneway_outbound and sreq
      = a_stream_request and outs = failing_stream_outbound and commonTags = common_tags and
      pick = 0 and pool = "[]" and resw = a_writer and hw = failing_pooled_handler]
  by (simp add: concrete_defs)

text \<open>
  Claim C8 as stated fails: \<^verbatim>\<open>New\<close> does not check what \<^verbatim>\<open>GlobalTracer()\<close> returns.  With a
  nil \<^verbatim>\<open>Tracer\<close> in the parameters and a nil global tracer, the field \<open>tracer\<close> is nil, and
  an inbound unary call panics on it before any span is started.
\<close>

theorem New_nil_global_tracer_counterexample:
  "Tracer params_without_tracer = None
   \<and> tracer (New a_format_for None params_without_tracer) = None
   \<and> in_span (Handle code_name 0 (New a_format_for None params_without_tracer) a_request
         failing_handler) = None
   \<and> in_returned (Handle code_name 0 (New a_format_for None params_without_tracer) a_request
         failing_handler) = Panic nil_dereference"
  by (simp add: concrete_defs)

section \<open>The pool of response observers\<close>

text \<open>
  Claim C9.  For every sequence of acquire, use and release operations on the pool,
  starting from any wrappers held and any content of the pool, every acquisition yields
  the wrapper of the response writer it was asked for, with the application-error flag
  false, no application-error meta and the response size zero.
\<close>

theorem acquired_writers_are_fresh:
  "pool_run ops held pool = map fresh_writer (acquired_for ops)"
proof (induction ops arbitrary: held pool)
  case Nil
  show ?case by simp
next
  case (Cons op ops)
  show ?case
  proof (cases op)
    case (Acquire pick rw)
    have "fst (newWriter pick pool rw) = fresh_writer rw"
      by (rule newWriter_fresh)
    then show ?thesis
      using Acquire Cons.IH by (simp add: case_prod_beta)
  next
    case (Use i c)
    then show ?thesis
      using Cons.IH by (simp split: go.split)
  next
    case (Release i)
    then show ?thesis
      using Cons.IH by simp
  qed
qed

text \<open>
  Claim C10.  For every inbound unary call of the pooled version where the handler calls
  \<^verbatim>\<open>SetApplicationError\<close> on the writer it is given and returns a nil error, the only tag
  the interceptor sets on the span is \<^verbatim>\<open>error.type\<close>, to \<^verbatim>\<open>application_error\<close>: the tag
  \<^verbatim>\<open>error\<close> is left as the static tags have it; the call returns nil.
\<close>

theorem pooled_Handle_application_error:
  assumes "tracer m = Some tr" and "hw req = (calls, Return None)"
    and "CallSetApplicationError \<in> set calls"
  shows "(\<exists>s. hp_span (Handle_pooled cs commonTags now pick pool m req resw hw) = Some s
            \<and> tags s = (''error.type'', TStr ''application_error'') # commonTags
            \<and> tag s ''error.type'' = Some (TStr ''application_error'')
            \<and> tag s ''error'' = map_of commonTags ''error'')
       \<and> hp_returned (Handle_pooled cs commonTags now pick pool m req resw hw) = Return None"
proof -
  from writer_run_newWriter [of calls pick pool resw] assms(3) obtain w' where
    w': "writer_run calls (fst (newWriter pick pool resw)) = Return w'" "isApplicationError w'"
    by blast
  have u: "updateSpanWithError cs s None = (s, None)" for s
    by (simp add: updateSpanWithError_def)
  show ?thesis
    using assms(1,2) w'
    by (simp add: Handle_pooled_def Let_def case_prod_beta u tags_Finish tag_def SetTag_def
        ExtractOpenTracingSpan_Do_def)
qed

theorem pooled_Handle_application_error_witness:
  "tracer plain_interceptor = Some plain_tracer \<and> flagging_handler a_request = ([CallWrite
      ''body'', CallSetApplicationError], Return None) \<and> CallSetApplicationError \<in> set
      [CallWrite ''body'', CallSetApplicationError]
 \<and> (\<exists>s. hp_span (Handle_pooled code_name common_tags 0 0 [] plain_interceptor
     a_request a_writer flagging_handler) = Some s
            \<and> tags s = (''error.type'', TStr ''application_error'') # common_tags
            \<and> tag s ''error.type'' = Some (TStr ''application_error'')
            \<and> tag s ''error'' = map_of common_tags ''error'')
       \<and> hp_returned (Handle_pooled code_name common_tags 0 0 [] plain_interceptor
           a_request a_writer flagging_handler) = Return None"
  using pooled_Handle_application_error [where m = plain_interceptor and tr = plain_tracer and
      hw = flagging_handler and req = a_request and calls = "[CallWrite ''body'',
      CallSetApplicationError]" and cs = code_name and commonTags = common_tags and now = 0 and
      pick = 0 and pool = "[]" and resw = a_writer]
  by (simp add: concrete_defs)

end
